theory Spec2Isabelle
  imports Complex_Main "HOL-Library.Code_Target_Nat"
begin

section \<open>JavaScript values, strings and objects\<close>

text \<open>
  The controller \<^verbatim>\<open>src/app.ts\<close> works on spreadsheet cells, which it types as
  strings, and on plain objects whose property values are strings. A JavaScript string
  is a sequence of UTF-16 code units; a code unit is modelled as a natural number, and
  \<open>js\<close> turns the text of an ASCII literal into such a sequence.
\<close>

type_synonym jstring = "nat list"

definition js :: "string \<Rightarrow> jstring" where
  "js s = map of_char s"

text \<open>
  A property read or an array read may yield \<^verbatim>\<open>undefined\<close>. A read of a plain object
  may also yield a member that the object inherits from \<^verbatim>\<open>Object.prototype\<close>: a
  function, or for \<^verbatim>\<open>__proto__\<close> the prototype object itself. \<open>Inherited name\<close> stands
  for the inherited member of that name.
\<close>

datatype jsval = Undefined | Str jstring | Inherited jstring

text \<open>The names of the members that every plain object inherits.\<close>

definition protoMembers :: "jstring list" where
  "protoMembers =
     [js ''constructor'', js ''__defineGetter__'', js ''__defineSetter__'',
      js ''hasOwnProperty'', js ''__lookupGetter__'', js ''__lookupSetter__'',
      js ''isPrototypeOf'', js ''propertyIsEnumerable'', js ''toString'', js ''valueOf'',
      js ''__proto__'', js ''toLocaleString'']"

fun truthy :: "jsval \<Rightarrow> bool" where
  "truthy Undefined = False"
| "truthy (Str s) = (s \<noteq> [])"
| "truthy (Inherited name) = True"

text \<open>The operator \<^verbatim>\<open>a || b\<close>.\<close>

definition js_or :: "jsval \<Rightarrow> jsval \<Rightarrow> jsval" where
  "js_or a b = (if truthy a then a else b)"

text \<open>
  The text of an inherited member, as the V8 engine prints it: the source text of a
  native function, and \<^verbatim>\<open>[object Object]\<close> for the prototype object.
\<close>

definition nativeText :: "jstring \<Rightarrow> jstring" where
  "nativeText name =
     (if name = js ''__proto__'' then js ''[object Object]''
      else js ''function '' @ (if name = js ''constructor'' then js ''Object'' else name)
             @ js ''() { [native code] }'')"

text \<open>String conversion, as \<^verbatim>\<open>new String(v)\<close> does it.\<close>

fun to_String :: "jsval \<Rightarrow> jstring" where
  "to_String Undefined = js ''undefined''"
| "to_String (Str s) = s"
| "to_String (Inherited name) = nativeText name"

text \<open>An element of an array under \<^verbatim>\<open>join\<close>: undefined is the empty string.\<close>

fun join_elem :: "jsval \<Rightarrow> jstring" where
  "join_elem Undefined = []"
| "join_elem (Str s) = s"
| "join_elem (Inherited name) = nativeText name"

fun js_join :: "jstring \<Rightarrow> jstring list \<Rightarrow> jstring" where
  "js_join sep [] = []"
| "js_join sep [x] = x"
| "js_join sep (x # y # ys) = x @ sep @ js_join sep (y # ys)"

text \<open>An array read \<^verbatim>\<open>xs[i]\<close>: out of range it yields undefined.\<close>

definition js_index :: "jstring list \<Rightarrow> nat \<Rightarrow> jsval" where
  "js_index xs i = (if i < length xs then Str (xs ! i) else Undefined)"

text \<open>
  A plain object is the list of its own properties in insertion order, keys distinct;
  its prototype is \<^verbatim>\<open>Object.prototype\<close>. \<open>obj_set\<close> defines an own property, as
  \<^verbatim>\<open>Object.fromEntries\<close> and \<^verbatim>\<open>JSON.parse\<close> do for every key: an existing key keeps
  its place, a new key goes to the end. The numeric reordering of integer-like keys is
  not modelled: the general theorems below speak of the set of keys, and the examples
  use no such key.
\<close>

type_synonym obj = "(jstring \<times> jsval) list"

fun obj_set :: "jstring \<Rightarrow> jsval \<Rightarrow> obj \<Rightarrow> obj" where
  "obj_set k v [] = [(k, v)]"
| "obj_set k v ((k', v') # ps) =
     (if k' = k then (k, v) # ps else (k', v') # obj_set k v ps)"

text \<open>
  A read \<^verbatim>\<open>ob[k]\<close>: the own property if there is one, else the inherited member of
  that name if there is one, else undefined.
\<close>

definition obj_get :: "obj \<Rightarrow> jstring \<Rightarrow> jsval" where
  "obj_get ob k =
     (case map_of ob k of
        Some v \<Rightarrow> v
      | None \<Rightarrow> (if k \<in> set protoMembers then Inherited k else Undefined))"

definition obj_keys :: "obj \<Rightarrow> jstring list" where
  "obj_keys ob = map fst ob"

definition obj_values :: "obj \<Rightarrow> jsval list" where
  "obj_values ob = map snd ob"

text \<open>The operator \<^verbatim>\<open>k in ob\<close>: an own or an inherited property.\<close>

definition hasProperty :: "obj \<Rightarrow> jstring \<Rightarrow> bool" where
  "hasProperty ob k = (k \<in> set (obj_keys ob) \<or> k \<in> set protoMembers)"

text \<open>
  An assignment \<^verbatim>\<open>ob[k] = v\<close> of a string or of undefined. It writes the own
  property, except for the key \<^verbatim>\<open>__proto__\<close> on an object that has no own property of
  that name: there the inherited setter runs, which ignores a value that is no object.
\<close>

definition obj_assign :: "jstring \<Rightarrow> jsval \<Rightarrow> obj \<Rightarrow> obj" where
  "obj_assign k v ob =
     (if k = js ''__proto__'' \<and> k \<notin> set (obj_keys ob) then ob else obj_set k v ob)"

definition fromEntries :: "(jstring \<times> jsval) list \<Rightarrow> obj" where
  "fromEntries es = foldl (\<lambda>ob (k, v). obj_set k v ob) [] es"

text \<open>
  The text that \<^verbatim>\<open>JSON.stringify\<close> makes of an object is kept abstract: it is
  the list of the properties it serialises. A property whose value is undefined or a
  function is left out, as in JavaScript (the program stores strings and undefined
  only). \<^verbatim>\<open>JSON.parse\<close> rebuilds the object from such a text.
\<close>

fun json_entry :: "jstring \<times> jsval \<Rightarrow> (jstring \<times> jstring) list" where
  "json_entry (k, Undefined) = []"
| "json_entry (k, Str s) = [(k, s)]"
| "json_entry (k, Inherited name) = []"

definition JSON_stringify :: "obj \<Rightarrow> (jstring \<times> jstring) list" where
  "JSON_stringify ob = concat (map json_entry ob)"

definition JSON_parse :: "(jstring \<times> jstring) list \<Rightarrow> obj" where
  "JSON_parse kvs = fromEntries (map (\<lambda>(k, s). (k, Str s)) kvs)"

subsection \<open>String operations\<close>

text \<open>
  The white space that \<^verbatim>\<open>String.prototype.trim\<close> strips and that the class
  \<^verbatim>\<open>\s\<close> of a regular expression matches: the white space and line terminator code
  points of ECMAScript, all of them single code units. They are TAB, LF, VT, FF, CR,
  SPACE, U+00A0, U+1680, U+2000 to U+200A, U+2028, U+2029, U+202F, U+205F, U+3000 and
  U+FEFF.
\<close>

definition is_space :: "nat \<Rightarrow> bool" where
  "is_space c =
     (c \<in> set [9, 10, 11, 12, 13, 32, 160, 5760, 8232, 8233, 8239, 8287, 12288, 65279]
      \<or> (8192 \<le> c \<and> c \<le> 8202))"

text \<open>The class \<^verbatim>\<open>\w\<close>: the ASCII letters, the digits and the underscore.\<close>

definition is_word :: "nat \<Rightarrow> bool" where
  "is_word c =
     ((48 \<le> c \<and> c \<le> 57) \<or> (65 \<le> c \<and> c \<le> 90) \<or> c = 95 \<or> (97 \<le> c \<and> c \<le> 122))"

definition trim :: "jstring \<Rightarrow> jstring" where
  "trim s = rev (dropWhile is_space (rev (dropWhile is_space s)))"

text \<open>
  \<^verbatim>\<open>toLowerCase\<close> on the ASCII letters; other code units are left as they are. The
  program applies it to matches of \<^verbatim>\<open>WORD_MATCH_REGEX\<close> only, which consist of word
  and white space characters, and on those this is what JavaScript does.
\<close>

definition toLowerCase :: "jstring \<Rightarrow> jstring" where
  "toLowerCase s = map (\<lambda>c. if 65 \<le> c \<and> c \<le> 90 then c + 32 else c) s"

text \<open>\<^verbatim>\<open>s.replace(pat, '')\<close> with a string pattern: the first occurrence goes.\<close>

fun replace_first :: "jstring \<Rightarrow> jstring \<Rightarrow> jstring" where
  "replace_first pat [] = []"
| "replace_first pat (c # cs) =
     (if take (length pat) (c # cs) = pat then drop (length pat) (c # cs)
      else c # replace_first pat cs)"

text \<open>\<^verbatim>\<open>s.split(sep)\<close> with a one-character separator.\<close>

fun split_on :: "nat \<Rightarrow> jstring \<Rightarrow> jstring list" where
  "split_on sep [] = [[]]"
| "split_on sep (c # cs) =
     (if c = sep then [] # split_on sep cs
      else (case split_on sep cs of
              [] \<Rightarrow> [[c]]
            | p # ps \<Rightarrow> (c # p) # ps))"

section \<open>Response parser\<close>

definition ORIGINAL_TITLE_TEMPLATE_PROMPT_PART :: jstring where
  "ORIGINAL_TITLE_TEMPLATE_PROMPT_PART = js ''product attribute keys in original title:''"

definition CATEGORY_PROMPT_PART :: jstring where
  "CATEGORY_PROMPT_PART = js ''product category:''"

definition TEMPLATE_PROMPT_PART :: jstring where
  "TEMPLATE_PROMPT_PART = js ''product attribute keys:''"

definition ATTRIBUTES_PROMPT_PART :: jstring where
  "ATTRIBUTES_PROMPT_PART = js ''product attribute values:''"

definition SEPARATOR :: nat where
  "SEPARATOR = 124"

text \<open>
  The chain \<^verbatim>\<open>row.replace(PART, '').split(SEPARATOR).filter(x => x).map(x => x.trim())\<close>
  of \<^verbatim>\<open>optimizeRow\<close>, used for the three attribute segments.
\<close>

definition parseSegment :: "jstring \<Rightarrow> jstring \<Rightarrow> jstring list" where
  "parseSegment part row =
     map trim (filter (\<lambda>x. x \<noteq> []) (split_on SEPARATOR (replace_first part row)))"

text \<open>\<^verbatim>\<open>keys.map(x => `<${x.trim()}>`).join(' ')\<close>.\<close>

definition renderTemplate :: "jstring list \<Rightarrow> jstring" where
  "renderTemplate keys = js_join (js '' '') (map (\<lambda>x. js ''<'' @ trim x @ js ''>'') keys)"

text \<open>
  The destructuring \<^verbatim>\<open>[origTemplateRow, genCategoryRow, genTemplateRow, genAttributesRow]
  = res.split('\n')\<close> and the parsing of the four rows that follows it. A row that
  the response lacks is undefined, and calling \<^verbatim>\<open>replace\<close> on it throws a
  TypeError. Lines after the fourth are ignored.
\<close>

datatype error = TypeError | SyntaxError | RangeError | ModelFailure

record parsed =
  origAttributes :: "jstring list"
  genCategory :: jstring
  genAttributes :: "jstring list"
  genAttributeValues :: "jstring list"

definition parseResponse :: "jstring \<Rightarrow> error + parsed" where
  "parseResponse res =
     (case split_on 10 res of
        origTemplateRow # genCategoryRow # genTemplateRow # genAttributesRow # _ \<Rightarrow>
          Inr \<lparr> origAttributes = parseSegment ORIGINAL_TITLE_TEMPLATE_PROMPT_PART origTemplateRow,
                genCategory = trim (replace_first CATEGORY_PROMPT_PART genCategoryRow),
                genAttributes = parseSegment TEMPLATE_PROMPT_PART genTemplateRow,
                genAttributeValues = parseSegment ATTRIBUTES_PROMPT_PART genAttributesRow \<rparr>
      | _ \<Rightarrow> Inl TypeError)"

section \<open>Row reconciler\<close>

text \<open>The condition of the \<^verbatim>\<open>if\<close> in the \<^verbatim>\<open>forEach\<close> of \<^verbatim>\<open>optimizeRow\<close>.\<close>

definition isGap :: "obj \<Rightarrow> jstring list \<Rightarrow> jstring \<Rightarrow> bool" where
  "isGap dataObj origAttrs attribute =
     (\<not> truthy (obj_get dataObj attribute) \<and>
      (attribute \<notin> set origAttrs \<or> attribute \<in> set (obj_keys dataObj)))"

text \<open>
  One round of the \<^verbatim>\<open>forEach\<close>: the state is the pair of
  \<^verbatim>\<open>gapAttributesAndValues\<close> and \<^verbatim>\<open>titleFeatures\<close>.
\<close>

definition forEachStep ::
  "obj \<Rightarrow> jstring list \<Rightarrow> jstring list \<Rightarrow> obj \<times> jsval list \<Rightarrow> jstring \<times> nat \<Rightarrow> obj \<times> jsval list" where
  "forEachStep dataObj origAttrs genValues acc ai =
     (case (acc, ai) of ((gap, titleFeatures), (attribute, index)) \<Rightarrow>
        ((if isGap dataObj origAttrs attribute
          then obj_assign attribute (js_index genValues index) gap else gap),
         titleFeatures @ [js_or (obj_get dataObj attribute) (js_index genValues index)]))"

definition reconcile ::
  "obj \<Rightarrow> jstring list \<Rightarrow> jstring list \<Rightarrow> jstring list \<Rightarrow> obj \<times> jsval list" where
  "reconcile dataObj origAttrs genAttrs genValues =
     foldl (forEachStep dataObj origAttrs genValues) ([], [])
       (zip genAttrs [0..<length genAttrs])"

definition gapAttributesAndValues :: "obj \<Rightarrow> jstring list \<Rightarrow> jstring list \<Rightarrow> jstring list \<Rightarrow> obj" where
  "gapAttributesAndValues dataObj origAttrs genAttrs genValues =
     fst (reconcile dataObj origAttrs genAttrs genValues)"

definition titleFeatures :: "obj \<Rightarrow> jstring list \<Rightarrow> jstring list \<Rightarrow> jstring list \<Rightarrow> jsval list" where
  "titleFeatures dataObj origAttrs genAttrs genValues =
     snd (reconcile dataObj origAttrs genAttrs genValues)"

definition genTitleOf :: "jsval list \<Rightarrow> jstring" where
  "genTitleOf features = js_join (js '' '') (map join_elem features)"

section \<open>Metrics scorer\<close>

text \<open>
  \<^verbatim>\<open>WORD_MATCH_REGEX = /(\w|\s)*\w(?=")|\w+/g\<close>. The first alternative matches at
  a position exactly when the longest run of word and space characters from there ends
  in a word character and is followed by a double quote (the quote is neither a word
  nor a space character, so no shorter run can end before it); the match is the run.
  Otherwise the second alternative matches the longest run of word characters, if the
  position holds one. With the flag \<^verbatim>\<open>g\<close> the search resumes after each match.
\<close>

definition wordOrSpace :: "nat \<Rightarrow> bool" where
  "wordOrSpace c = (is_word c \<or> is_space c)"

definition quotedPhrase :: "jstring \<Rightarrow> bool" where
  "quotedPhrase s =
     (takeWhile wordOrSpace s \<noteq> [] \<and> is_word (last (takeWhile wordOrSpace s)) \<and>
      take 1 (dropWhile wordOrSpace s) = [34])"

function matchWords :: "jstring \<Rightarrow> jstring list" where
  "matchWords [] = []"
| "matchWords (c # cs) =
     (if quotedPhrase (c # cs)
      then takeWhile wordOrSpace (c # cs) # matchWords (dropWhile wordOrSpace (c # cs))
      else if is_word c
      then takeWhile is_word (c # cs) # matchWords (dropWhile is_word (c # cs))
      else matchWords cs)"
  by pat_completeness auto
termination
proof (relation "measure length")
  show "wf (measure length)" by simp
next
  fix c :: nat and cs :: jstring
  assume "quotedPhrase (c # cs)"
  then have "wordOrSpace c" by (auto simp: quotedPhrase_def split: if_splits)
  then show "(dropWhile wordOrSpace (c # cs), c # cs) \<in> measure length"
    by (simp add: length_dropWhile_le less_Suc_eq_le)
next
  fix c :: nat and cs :: jstring
  assume "is_word c"
  then show "(dropWhile is_word (c # cs), c # cs) \<in> measure length"
    by (simp add: length_dropWhile_le less_Suc_eq_le)
next
  fix c :: nat and cs :: jstring
  show "(cs, c # cs) \<in> measure length" by simp
qed

declare matchWords.simps [simp del]

text \<open>The elements of a \<^verbatim>\<open>Set\<close> built from an array, in insertion order.\<close>

definition uniq :: "'a list \<Rightarrow> 'a list" where
  "uniq xs = rev (remdups (rev xs))"

text \<open>
  Modelled from the spec: \<^verbatim>\<open>Util.getSetDifference\<close> of \<^verbatim>\<open>helpers/util\<close>,
  which is not among the sources. The spec calls its result the set difference,
  generated keys minus original keys; the caller takes its length and maps over it.
\<close>

definition getSetDifference :: "jstring list \<Rightarrow> jstring list \<Rightarrow> jstring list" where
  "getSetDifference genSet origSet = filter (\<lambda>x. x \<notin> set origSet) genSet"

definition inputWordsOf :: "obj \<Rightarrow> jstring list" where
  "inputWordsOf dataObj =
     uniq (concat (map (\<lambda>v. map toLowerCase (matchWords (to_String v))) (obj_values dataObj)))"

definition newWordsAdded :: "jstring \<Rightarrow> jstring list \<Rightarrow> jstring list" where
  "newWordsAdded genTitle inputWords =
     uniq (filter (\<lambda>w. toLowerCase w \<notin> set inputWords) (matchWords genTitle))"

definition gapAttributesPresent :: "obj \<Rightarrow> obj \<Rightarrow> jstring list" where
  "gapAttributesPresent gap originalInput =
     filter (\<lambda>gapKey. hasProperty originalInput gapKey) (obj_keys gap)"

definition gapAttributesInvented :: "obj \<Rightarrow> obj \<Rightarrow> jstring list" where
  "gapAttributesInvented gap originalInput =
     filter (\<lambda>gapKey. \<not> hasProperty originalInput gapKey) (obj_keys gap)"

text \<open>\<^verbatim>\<open>Number(b)\<close> for a boolean.\<close>

definition Number :: "bool \<Rightarrow> nat" where
  "Number b = (if b then 1 else 0)"

text \<open>The sum that \<^verbatim>\<open>totalScore\<close> divides by five.\<close>

definition scoreSum ::
  "jsval \<Rightarrow> jstring \<Rightarrow> jstring list \<Rightarrow> jstring list \<Rightarrow> jstring list \<Rightarrow> obj \<Rightarrow> obj \<Rightarrow> nat" where
  "scoreSum origTitle genTitle origSet genSet inputWords gap originalInput =
     Number (length (getSetDifference genSet origSet) > 0) +
     Number (origTitle \<noteq> Str genTitle) +
     Number (length (newWordsAdded genTitle inputWords) = 0) +
     Number (length (gapAttributesPresent gap originalInput) > 0) +
     Number (length (gapAttributesInvented gap originalInput) > 0)"

text \<open>
  The quotient is a double; the quotients of 0 .. 5 by 5 are the doubles nearest to the
  fractions, so the value is kept as the fraction.
\<close>

definition totalScore ::
  "jsval \<Rightarrow> jstring \<Rightarrow> jstring list \<Rightarrow> jstring list \<Rightarrow> jstring list \<Rightarrow> obj \<Rightarrow> obj \<Rightarrow> rat" where
  "totalScore origTitle genTitle origSet genSet inputWords gap originalInput =
     of_nat (scoreSum origTitle genTitle origSet genSet inputWords gap originalInput) / 5"

text \<open>
  \<^verbatim>\<open>Number.prototype.toString\<close> for a number that is not negative and has at most
  one decimal digit, as each of these quotients has: the decimal digits of the integer
  part, followed by the point and the decimal digit if that digit is not 0.
\<close>

fun showNat :: "nat \<Rightarrow> jstring" where
  "showNat n = (if n < 10 then [48 + n] else showNat (n div 10) @ [48 + n mod 10])"

declare showNat.simps [simp del]

definition numberToString :: "rat \<Rightarrow> jstring" where
  "numberToString x =
     (let n = nat \<lfloor>x\<rfloor>; d = nat \<lfloor>(x - of_nat n) * 10\<rfloor>
      in showNat n @ (if d = 0 then [] else js ''.'' @ [48 + d]))"

definition boolToString :: "bool \<Rightarrow> jstring" where
  "boolToString b = (if b then (js ''true'') else (js ''false''))"

record metrics =
  m_totalScore :: jstring
  m_titleChanged :: jstring
  m_addedAttributes :: jstring
  m_newWordsAdded :: jstring

definition getGenerationMetrics ::
  "jsval \<Rightarrow> jstring \<Rightarrow> jstring list \<Rightarrow> jstring list \<Rightarrow> jstring list \<Rightarrow> obj \<Rightarrow> obj \<Rightarrow> metrics" where
  "getGenerationMetrics origTitle genTitle origSet genSet inputWords gap originalInput =
     \<lparr> m_totalScore =
         numberToString (totalScore origTitle genTitle origSet genSet inputWords gap originalInput),
       m_titleChanged = boolToString (origTitle \<noteq> Str genTitle),
       m_addedAttributes =
         js_join (js '' '') (map (\<lambda>attr. js ''<'' @ attr @ js ''>'') (getSetDifference genSet origSet)),
       m_newWordsAdded = js_join (js '' | '') (newWordsAdded genTitle inputWords) \<rparr>"

section \<open>Row optimisation\<close>

text \<open>
  The values that \<^verbatim>\<open>getConfigSheetValue\<close> reads for the three column names. The
  language model is a parameter: \<^verbatim>\<open>Util.executeWithRetry\<close> around
  \<^verbatim>\<open>predict\<close> either returns the text of the response or throws after the
  retries. The prompt is the configured prompt followed by the serialised context
  object, so the model is given as a function of that object.
\<close>

record settings =
  itemIdColumnName :: jstring
  titleColumnName :: jstring
  descriptionColumnName :: jstring

type_synonym predictor = "obj \<Rightarrow> error + jstring"

definition fetchTitleGenerationData :: "predictor \<Rightarrow> obj \<Rightarrow> error + jstring" where
  "fetchTitleGenerationData predict data = predict data"

text \<open>
  \<^verbatim>\<open>Object.assign(data, {'Generated Title': generatedTitle})\<close> writes the property
  into \<^verbatim>\<open>data\<close> itself and returns that same object. The caller's
  \<^verbatim>\<open>dataObj\<close> is this object, so the function returns, next to the outcome of
  the model call, the object as the call leaves it.
\<close>

definition fetchDescriptionGenerationData ::
  "predictor \<Rightarrow> obj \<Rightarrow> jstring \<Rightarrow> (error + jstring) \<times> obj" where
  "fetchDescriptionGenerationData predict data generatedTitle =
     (let modifiedData = obj_assign (js ''Generated Title'') (Str generatedTitle) data
      in (predict modifiedData, modifiedData))"

text \<open>A cell of a sheet row or an element of a row array.\<close>

datatype cell = Bool bool | Val jsval | JsonText "(jstring \<times> jstring) list"

fun cell_truthy :: "cell \<Rightarrow> bool" where
  "cell_truthy (Bool b) = b"
| "cell_truthy (Val v) = truthy v"
| "cell_truthy (JsonText kvs) = True"

text \<open>
  \<^verbatim>\<open>Object.fromEntries(data.map((item, index) => [headers[index], item]))\<close>: a cell
  beyond the headers gets the key that undefined converts to.
\<close>

definition dataObjOf :: "jstring list \<Rightarrow> jstring list \<Rightarrow> obj" where
  "dataObjOf headers data =
     fromEntries (map (\<lambda>(item, index). (to_String (js_index headers index), Str item))
                      (zip data [0..<length data]))"

definition optimizeRow ::
  "settings \<Rightarrow> predictor \<Rightarrow> predictor \<Rightarrow> jstring list \<Rightarrow> jstring list \<Rightarrow> error + cell list" where
  "optimizeRow st predictTitle predictDescription headers data =
     (let dataObj = dataObjOf headers data;
          itemId = obj_get dataObj (itemIdColumnName st);
          origTitle = obj_get dataObj (titleColumnName st);
          origDescription = obj_get dataObj (descriptionColumnName st)
      in case fetchTitleGenerationData predictTitle dataObj of
           Inl e \<Rightarrow> Inl e
         | Inr res \<Rightarrow>
            (case parseResponse res of
               Inl e \<Rightarrow> Inl e
             | Inr p \<Rightarrow>
                (let genTemplate = renderTemplate (genAttributes p);
                     origTemplate = renderTemplate (origAttributes p);
                     gap = gapAttributesAndValues dataObj (origAttributes p)
                             (genAttributes p) (genAttributeValues p);
                     genTitle = genTitleOf (titleFeatures dataObj (origAttributes p)
                                  (genAttributes p) (genAttributeValues p))
                 in case fetchDescriptionGenerationData predictDescription dataObj genTitle of
                      (Inl e, dataObj') \<Rightarrow> Inl e
                    | (Inr genDescription, dataObj') \<Rightarrow>
                       (let inputWords = inputWordsOf dataObj';
                            m = getGenerationMetrics origTitle genTitle
                                  (uniq (origAttributes p)) (uniq (genAttributes p))
                                  inputWords gap dataObj'
                        in Inr [Bool False,
                                Val (Str (js ''Success'')),
                                Val itemId,
                                Val (Str genTitle),
                                Val (Str genDescription),
                                Val (Str (genCategory p)),
                                Val (Str (m_totalScore m)),
                                Val (Str (m_titleChanged m)),
                                Val (Str origTemplate),
                                Val (Str genTemplate),
                                Val (Str (m_addedAttributes m)),
                                Val (Str (m_newWordsAdded m)),
                                (if length (obj_keys gap) > 0
                                 then JsonText (JSON_stringify gap) else Val (Str [])),
                                JsonText (JSON_stringify dataObj'),
                                Val origTitle,
                                Val origDescription,
                                Val (Str (res @ [10] @ js ''product description: ''
                                          @ genDescription))]))))"

section \<open>Sheets, configuration and effects\<close>

text \<open>
  Modelled from the spec: \<^verbatim>\<open>CONFIG\<close> and \<^verbatim>\<open>Status\<close> of \<^verbatim>\<open>./config\<close>, which is
  not among the sources. The start rows, the column indices, the column names of the
  output and the two status words are parameters; the sheet names are the tags of
  \<open>sheetName\<close>.
\<close>

record config =
  input_startRow :: nat
  generated_startRow :: nat
  generated_cols_approval :: nat
  generated_cols_status :: nat
  generated_cols_id :: nat
  generated_cols_titleGenerated :: nat
  generated_cols_descriptionGenerated :: nat
  generated_cols_gapAttributes :: nat
  generated_cols_originalInput :: nat
  output_startRow :: nat
  output_cols_modificationTimestamp :: nat
  output_cols_id_idx :: nat
  output_cols_id_name :: jstring
  output_cols_title_idx :: nat
  output_cols_title_name :: jstring
  output_cols_description_idx :: nat
  output_cols_description_name :: jstring
  output_cols_gapCols_start :: nat
  Status_SUCCESS :: jstring
  Status_FAILED :: jstring

datatype sheetName = InputSheet | GeneratedSheet | OutputSheet

text \<open>
  What a function does to the spreadsheet and to the log is the list of the calls it
  makes, in order. The texts of two log messages depend on values whose printing is not
  modelled; they are kept as structured messages.
\<close>

datatype logmsg = Msg jstring | GeneratingForRow int | ErrorMsg error

datatype effect =
    Log logmsg
  | SetValuesInDefinedRange sheetName nat nat "cell list list"
  | ClearDefinedRange sheetName nat nat
  | AppendRow sheetName "cell list"

text \<open>A sheet is the list of its rows up to the last row that has content.\<close>

type_synonym sheet = "cell list list"

text \<open>A read \<^verbatim>\<open>row[i]\<close> and a write \<^verbatim>\<open>row[i] = v\<close>, which extends the array.\<close>

definition row_get :: "cell list \<Rightarrow> nat \<Rightarrow> cell" where
  "row_get row i = (if i < length row then row ! i else Val Undefined)"

definition arr_set :: "nat \<Rightarrow> cell \<Rightarrow> cell list \<Rightarrow> cell list" where
  "arr_set i v xs =
     (if i < length xs then xs[i := v]
      else xs @ replicate (i - length xs) (Val Undefined) @ [v])"

text \<open>
  \<^verbatim>\<open>appendRow\<close> of the spreadsheet service puts the row after the last row that
  has content.
\<close>

definition appendRow :: "cell list \<Rightarrow> sheet \<Rightarrow> sheet" where
  "appendRow row sh = sh @ [row]"

text \<open>
  Modelled from the spec: \<^verbatim>\<open>SheetsService.setValuesInDefinedRange(sheetName, row, col, rows)\<close>
  of \<^verbatim>\<open>helpers/sheets\<close>, which is not among the sources. Rows and columns count
  from 1; the values overwrite the cells from \<open>(row, col)\<close> on, and the sheet grows
  when they lie beyond its last row.
\<close>

definition write_cells :: "nat \<Rightarrow> cell list \<Rightarrow> cell list \<Rightarrow> cell list" where
  "write_cells col vals old =
     take (col - 1) (old @ replicate (col - 1 - length old) (Val Undefined))
       @ vals @ drop (col - 1 + length vals) old"

definition write_row :: "nat \<Rightarrow> nat \<Rightarrow> cell list \<Rightarrow> sheet \<Rightarrow> sheet" where
  "write_row i col vals sh =
     (if i < length sh then sh[i := write_cells col vals (sh ! i)]
      else sh @ replicate (i - length sh) [] @ [write_cells col vals []])"

definition setValuesInDefinedRange :: "nat \<Rightarrow> nat \<Rightarrow> cell list list \<Rightarrow> sheet \<Rightarrow> sheet" where
  "setValuesInDefinedRange row col rows sh =
     foldl (\<lambda>acc (vals, k). write_row (row - 1 + k) col vals acc) sh
       (zip rows [0..<length rows])"

text \<open>What one call does to the generated sheet.\<close>

fun applyToGenerated :: "effect \<Rightarrow> sheet \<Rightarrow> sheet" where
  "applyToGenerated (AppendRow GeneratedSheet row) sh = appendRow row sh"
| "applyToGenerated (SetValuesInDefinedRange GeneratedSheet row col rows) sh =
     setValuesInDefinedRange row col rows sh"
| "applyToGenerated _ sh = sh"

definition runOnGenerated :: "effect list \<Rightarrow> sheet \<Rightarrow> sheet" where
  "runOnGenerated effs sh = foldl (\<lambda>acc e. applyToGenerated e acc) sh effs"

section \<open>Row driver\<close>

fun find_index :: "('a \<Rightarrow> bool) \<Rightarrow> 'a list \<Rightarrow> nat option" where
  "find_index P [] = None"
| "find_index P (x # xs) =
     (if P x then Some 0 else map_option Suc (find_index P xs))"

text \<open>\<^verbatim>\<open>searchValues.includes(cell)\<close> for an array of strings.\<close>

fun includes_cell :: "jstring list \<Rightarrow> cell \<Rightarrow> bool" where
  "includes_cell searchValues (Val (Str s)) = (s \<in> set searchValues)"
| "includes_cell searchValues _ = False"

text \<open>
  \<^verbatim>\<open>findRowIndex\<close> on a sheet that exists. \<^verbatim>\<open>getRange\<close> throws when a coordinate
  or the number of rows is below 1.
\<close>

definition findRowIndex ::
  "sheet \<Rightarrow> jstring list \<Rightarrow> nat \<Rightarrow> nat \<Rightarrow> bool \<Rightarrow> error + int" where
  "findRowIndex sh searchValues column offset negate =
     (if int (length sh) - int offset + 1 = 0 then Inr 0
      else if offset < 1 \<or> column < 1 \<or> int (length sh) - int offset + 1 < 1 then Inl RangeError
      else (case find_index
                   (\<lambda>c. if negate then \<not> includes_cell searchValues c
                        else includes_cell searchValues c)
                   (map (\<lambda>row. row_get row (column - 1)) (drop (offset - 1) sh)) of
              None \<Rightarrow> Inr (- 1)
            | Some rowIndex \<Rightarrow> Inr (int rowIndex)))"

text \<open>
  Modelled from the spec: \<^verbatim>\<open>SheetsService.getTotalRows(sheetName)\<close> of
  \<^verbatim>\<open>helpers/sheets\<close>, which is not among the sources: the count of the rows of the
  sheet.
\<close>

definition getTotalRows :: "sheet \<Rightarrow> int" where
  "getTotalRows sh = int (length sh)"

definition getNextRowIndexToBeGenerated :: "config \<Rightarrow> sheet \<Rightarrow> error + int" where
  "getNextRowIndexToBeGenerated cfg generatedSheet =
     (case findRowIndex generatedSheet [Status_SUCCESS cfg]
             (generated_cols_status cfg + 1) (generated_startRow cfg + 1) True of
        Inl e \<Rightarrow> Inl e
      | Inr index \<Rightarrow>
          (if index < 0 then Inr (getTotalRows generatedSheet - int (generated_startRow cfg))
           else Inr index))"

definition failedRow :: "config \<Rightarrow> cell list" where
  "failedRow cfg =
     arr_set (generated_cols_status cfg)
       (Val (Str (Status_FAILED cfg @ js ''. See log for more details.''))) []"

text \<open>
  \<^verbatim>\<open>generateNextRow\<close> with both sheets present. \<open>inputHeaders\<close> is what
  \<^verbatim>\<open>SheetsService.getHeaders(inputSheet)\<close> returns. The result is the list of calls
  made and the value returned, or the error that escaped.
\<close>

definition generateNextRow ::
  "config \<Rightarrow> settings \<Rightarrow> predictor \<Rightarrow> predictor \<Rightarrow> jstring list \<Rightarrow> jstring list list \<Rightarrow> sheet
     \<Rightarrow> effect list \<times> (error + int)" where
  "generateNextRow cfg st predictTitle predictDescription inputHeaders inputSheet generatedSheet =
     (case getNextRowIndexToBeGenerated cfg generatedSheet of
        Inl e \<Rightarrow> ([], Inl e)
      | Inr rowIndex \<Rightarrow>
          (if rowIndex \<ge> int (length inputSheet) - int (input_startRow cfg) then ([], Inr (- 1))
           else if int (input_startRow cfg) + rowIndex < 0
           then ([Log (GeneratingForRow rowIndex)], Inl RangeError)
           else
             (case optimizeRow st predictTitle predictDescription inputHeaders
                     (inputSheet ! nat (int (input_startRow cfg) + rowIndex)) of
                Inr optimizedRow \<Rightarrow>
                  ([Log (GeneratingForRow rowIndex),
                    SetValuesInDefinedRange GeneratedSheet
                      (nat (int (generated_startRow cfg) + 1 + rowIndex)) 1 [optimizedRow],
                    Log (Msg (Status_SUCCESS cfg))],
                   Inr rowIndex)
              | Inl e \<Rightarrow>
                  ([Log (GeneratingForRow rowIndex),
                    Log (ErrorMsg e),
                    AppendRow GeneratedSheet (failedRow cfg)],
                   Inr rowIndex))))"

section \<open>Export reconciler\<close>

text \<open>
  \<^verbatim>\<open>JSON.parse\<close> of a cell. The program writes the two JSON columns itself, as the
  empty string or as a serialised object; any other content of such a cell is taken to
  make the parse fail.
\<close>

fun parseCell :: "cell \<Rightarrow> error + obj" where
  "parseCell (JsonText kvs) = Inr (JSON_parse kvs)"
| "parseCell _ = Inl SyntaxError"

fun collect :: "(error + 'a) list \<Rightarrow> error + 'a list" where
  "collect [] = Inr []"
| "collect (x # xs) =
     (case x of
        Inl e \<Rightarrow> Inl e
      | Inr a \<Rightarrow> (case collect xs of Inl e \<Rightarrow> Inl e | Inr as \<Rightarrow> Inr (a # as)))"

text \<open>
  \<^verbatim>\<open>[...new Set(rows.filter(row => row[col]).map(row => Object.keys(JSON.parse(row[col]))).flat(1))]\<close>.
\<close>

definition keysOfColumn :: "nat \<Rightarrow> cell list list \<Rightarrow> error + jstring list" where
  "keysOfColumn col rows =
     (case collect (map (\<lambda>row. parseCell (row_get row col))
                        (filter (\<lambda>row. cell_truthy (row_get row col)) rows)) of
        Inl e \<Rightarrow> Inl e
      | Inr objs \<Rightarrow> Inr (uniq (concat (map obj_keys objs))))"

definition getGapAndInventedAttributes ::
  "config \<Rightarrow> cell list list \<Rightarrow> error + (jstring list \<times> jstring list)" where
  "getGapAndInventedAttributes cfg rows =
     (case keysOfColumn (generated_cols_gapAttributes cfg) rows of
        Inl e \<Rightarrow> Inl e
      | Inr filledInGapAttributes \<Rightarrow>
          (case keysOfColumn (generated_cols_originalInput cfg) rows of
             Inl e \<Rightarrow> Inl e
           | Inr allInputAttributes \<Rightarrow>
               (let inventedAttributes =
                      filter (\<lambda>gapKey. gapKey \<notin> set allInputAttributes) filledInGapAttributes;
                    gapAttributes =
                      filter (\<lambda>gapKey. gapKey \<notin> set inventedAttributes) filledInGapAttributes
                in Inr (inventedAttributes, gapAttributes))))"

text \<open>\<^verbatim>\<open>row[col] ? JSON.parse(row[col]) : {}\<close>.\<close>

definition parseOrEmpty :: "cell \<Rightarrow> error + obj" where
  "parseOrEmpty c = (if cell_truthy c then parseCell c else Inr [])"

text \<open>
  The body of the loop over the approved rows: \<open>timestamp\<close> is what
  \<^verbatim>\<open>new Date().toISOString()\<close> gives in this round.
\<close>

definition exportRow :: "config \<Rightarrow> jstring \<Rightarrow> jstring list \<Rightarrow> cell list \<Rightarrow> error + cell list" where
  "exportRow cfg timestamp gapAndInventedAttributes row =
     (let resRow =
            arr_set (output_cols_description_idx cfg)
              (row_get row (generated_cols_descriptionGenerated cfg))
              (arr_set (output_cols_title_idx cfg)
                 (row_get row (generated_cols_titleGenerated cfg))
                 (arr_set (output_cols_id_idx cfg) (row_get row (generated_cols_id cfg))
                    (arr_set (output_cols_modificationTimestamp cfg) (Val (Str timestamp)) [])))
      in case parseOrEmpty (row_get row (generated_cols_gapAttributes cfg)) of
           Inl e \<Rightarrow> Inl e
         | Inr gapObj \<Rightarrow>
            (case parseOrEmpty (row_get row (generated_cols_originalInput cfg)) of
               Inl e \<Rightarrow> Inl e
             | Inr originalInput \<Rightarrow>
                 Inr (foldl (\<lambda>acc (attribute, index).
                               arr_set (output_cols_gapCols_start cfg + index)
                                 (Val (if attribute \<in> set (obj_keys gapObj)
                                       then obj_get gapObj attribute
                                       else obj_get originalInput attribute)) acc)
                        resRow
                        (zip gapAndInventedAttributes [0..<length gapAndInventedAttributes]))))"

definition clearApprovedData :: "config \<Rightarrow> effect list" where
  "clearApprovedData cfg =
     [Log (Msg (js ''Clearing approved data...'')),
      ClearDefinedRange OutputSheet (output_startRow cfg) (output_cols_id_idx cfg + 1),
      ClearDefinedRange OutputSheet (output_startRow cfg + 1) 1]"

definition writeApprovedData :: "config \<Rightarrow> jstring list \<Rightarrow> cell list list \<Rightarrow> effect list" where
  "writeApprovedData cfg header rows =
     [Log (Msg (js ''Writing approved data...'')),
      SetValuesInDefinedRange OutputSheet (output_startRow cfg) (output_cols_id_idx cfg + 1)
        [map (\<lambda>h. Val (Str h)) header],
      SetValuesInDefinedRange OutputSheet (output_startRow cfg + 1) 1 rows]"

definition outputHeader :: "config \<Rightarrow> jstring list \<Rightarrow> jstring list \<Rightarrow> jstring list" where
  "outputHeader cfg gapAttributes inventedAttributes =
     [output_cols_id_name cfg, output_cols_title_name cfg, output_cols_description_name cfg]
       @ gapAttributes @ map (\<lambda>key. js ''new_'' @ key) inventedAttributes"

definition approvedRows :: "config \<Rightarrow> cell list list \<Rightarrow> cell list list" where
  "approvedRows cfg rows = filter (\<lambda>row. row_get row (generated_cols_approval cfg) = Bool True) rows"

text \<open>
  \<^verbatim>\<open>exportApproved\<close>: \<open>generatedRows\<close> is what \<^verbatim>\<open>getGeneratedRows()\<close> returns and
  \<open>clock k\<close> the timestamp taken in round \<open>k\<close> of the loop. The result is the list of
  calls made and the error that escaped, if one did.
\<close>

definition exportApproved ::
  "config \<Rightarrow> (nat \<Rightarrow> jstring) \<Rightarrow> cell list list \<Rightarrow> effect list \<times> error option" where
  "exportApproved cfg clock generatedRows =
     (let feedGenRows = approvedRows cfg generatedRows
      in if length feedGenRows = 0 then ([Log (Msg (js ''Exporting approved rows...''))], None)
         else
           (case getGapAndInventedAttributes cfg feedGenRows of
              Inl e \<Rightarrow> ([Log (Msg (js ''Exporting approved rows...''))], Some e)
            | Inr (inventedAttributes, gapAttributes) \<Rightarrow>
               (case collect (map (\<lambda>(row, k). exportRow cfg (clock k)
                                                (gapAttributes @ inventedAttributes) row)
                                  (zip feedGenRows [0..<length feedGenRows])) of
                  Inl e \<Rightarrow> ([Log (Msg (js ''Exporting approved rows...''))], Some e)
                | Inr rowsToWrite \<Rightarrow>
                    ([Log (Msg (js ''Exporting approved rows...''))]
                       @ clearApprovedData cfg
                       @ writeApprovedData cfg
                           (outputHeader cfg gapAttributes inventedAttributes) rowsToWrite,
                     None))))"

section \<open>Example inputs\<close>

text \<open>
  The example of the specification: the row \<^verbatim>\<open>{item_id:"1", title:"Red Shoe", color:""}\<close>
  and the four-line response of the model.
\<close>

definition example_settings :: settings where
  "example_settings =
     \<lparr> itemIdColumnName = js ''item_id'', titleColumnName = js ''title'',
       descriptionColumnName = js ''description'' \<rparr>"

definition example_headers :: "jstring list" where
  "example_headers = [js ''item_id'', js ''title'', js ''color'']"

definition example_data :: "jstring list" where
  "example_data = [js ''1'', js ''Red Shoe'', []]"

definition example_response :: jstring where
  "example_response =
     js ''product attribute keys in original title:color|'' @ [10] @
     js ''product category:Footwear'' @ [10] @
     js ''product attribute keys:color|size|'' @ [10] @
     js ''product attribute values:Red|10|''"

definition example_predictTitle :: predictor where
  "example_predictTitle data = Inr example_response"

definition example_predictDescription :: predictor where
  "example_predictDescription data = Inr (js ''A red shoe.'')"

text \<open>The cells of a result at the given positions.\<close>

definition selectCells :: "nat list \<Rightarrow> error + cell list \<Rightarrow> error + cell list" where
  "selectCells idxs res = (case res of Inl e \<Rightarrow> Inl e | Inr row \<Rightarrow> Inr (map (row_get row) idxs))"

text \<open>
  The same row with a response whose value line lacks the second value.
\<close>

definition example_short_response :: jstring where
  "example_short_response =
     js ''product attribute keys in original title:color|'' @ [10] @
     js ''product category:Footwear'' @ [10] @
     js ''product attribute keys:color|size|'' @ [10] @
     js ''product attribute values:Red|''"

definition example_predictShort :: predictor where
  "example_predictShort data = Inr example_short_response"

text \<open>
  A configuration with one header row in each sheet and the columns in the order in
  which \<^verbatim>\<open>optimizeRow\<close> returns them, and the two approved rows of the export example
  of the specification: row A filled the empty column \<^verbatim>\<open>color\<close>, row B invented
  \<^verbatim>\<open>material\<close>.
\<close>

definition example_config :: config where
  "example_config =
     \<lparr> input_startRow = 1, generated_startRow = 1, generated_cols_approval = 0,
       generated_cols_status = 1, generated_cols_id = 2, generated_cols_titleGenerated = 3,
       generated_cols_descriptionGenerated = 4, generated_cols_gapAttributes = 12,
       generated_cols_originalInput = 13, output_startRow = 1,
       output_cols_modificationTimestamp = 0, output_cols_id_idx = 1,
       output_cols_id_name = js ''Item ID'', output_cols_title_idx = 2,
       output_cols_title_name = js ''Title'', output_cols_description_idx = 3,
       output_cols_description_name = js ''Description'', output_cols_gapCols_start = 4,
       Status_SUCCESS = js ''Success'', Status_FAILED = js ''Failed'' \<rparr>"

definition example_rowA :: "cell list" where
  "example_rowA =
     [Bool True, Val (Str (js ''Success'')), Val (Str (js ''1'')), Val (Str (js ''Red Shoe'')),
      Val (Str (js ''A red shoe.'')), Val (Str (js ''Footwear'')), Val (Str (js ''0.6'')), Val (Str (js ''true'')),
      Val (Str []), Val (Str (js ''<color>'')), Val (Str (js ''<color>'')), Val (Str []),
      JsonText [(js ''color'', js ''Red'')], JsonText [(js ''title'', js ''Shoe''), (js ''color'', [])],
      Val (Str (js ''Shoe'')), Val Undefined, Val (Str (js ''response A''))]"

definition example_rowB :: "cell list" where
  "example_rowB =
     [Bool True, Val (Str (js ''Success'')), Val (Str (js ''2'')), Val (Str (js ''Wood Table'')),
      Val (Str (js ''A wooden table.'')), Val (Str (js ''Furniture'')), Val (Str (js ''0.6'')), Val (Str (js ''true'')),
      Val (Str []), Val (Str (js ''<material>'')), Val (Str (js ''<material>'')), Val (Str []),
      JsonText [(js ''material'', js ''Wood'')], JsonText [(js ''title'', js ''Table''), (js ''color'', js ''Brown'')],
      Val (Str (js ''Table'')), Val Undefined, Val (Str (js ''response B''))]"

definition example_clock :: "nat \<Rightarrow> jstring" where
  "example_clock k = js ''2023-06-01T00:00:00.000Z''"

text \<open>
  Two approved rows for the export: a row that filled the empty column
  \<^verbatim>\<open>constructor\<close> of its input, and a failed row, which holds a status cell only.
\<close>

definition example_rowCtor :: "cell list" where
  "example_rowCtor =
     [Bool True, Val (Str (js ''Success'')), Val (Str (js ''3'')), Val (Str (js ''Acme Brick'')),
      Val (Str (js ''A brick.'')), Val (Str (js ''Toys'')), Val (Str (js ''0.6'')),
      Val (Str (js ''true'')), Val (Str []), Val (Str (js ''<constructor>'')),
      Val (Str (js ''<constructor>'')), Val (Str []),
      JsonText [(js ''constructor'', js ''Acme'')],
      JsonText [(js ''title'', js ''Brick''), (js ''constructor'', [])],
      Val (Str (js ''Brick'')), Val Undefined, Val (Str (js ''response C''))]"

definition example_rowFailedApproved :: "cell list" where
  "example_rowFailedApproved =
     [Bool True, Val (Str (js ''Failed. See log for more details.''))]"

text \<open>A call that clears or writes cells of a sheet, as opposed to a log message.\<close>

fun touchesSheet :: "effect \<Rightarrow> bool" where
  "touchesSheet (Log msg) = False"
| "touchesSheet (SetValuesInDefinedRange sh row col rows) = True"
| "touchesSheet (ClearDefinedRange sh row col) = True"
| "touchesSheet (AppendRow sh row) = True"

text \<open>
  The input sheet of the example with a second data row, a model call that fails after
  its retries, a response that lacks three of its four lines, and the header row of the
  generated sheet.
\<close>

definition example_inputSheet :: "jstring list list" where
  "example_inputSheet =
     [[js ''item_id'', js ''title'', js ''color''], [js ''1'', js ''Red Shoe'', []], [js ''2'', js ''Blue Hat'', js ''Blue'']]"

definition failing_predict :: predictor where
  "failing_predict data = Inl ModelFailure"

definition truncated_predict :: predictor where
  "truncated_predict data = Inr (js ''product attribute keys in original title:color|'')"

definition example_generatedHeader :: "cell list" where
  "example_generatedHeader = [Val (Str (js ''Approval'')), Val (Str (js ''Status''))]"

text \<open>
  The same row with a response whose second key is the title column, which the row
  fills, and whose value line has one value.
\<close>

definition example_titleKey_response :: jstring where
  "example_titleKey_response =
     js ''product attribute keys in original title:color|'' @ [10] @
     js ''product category:Footwear'' @ [10] @
     js ''product attribute keys:color|title|'' @ [10] @
     js ''product attribute values:Red|''"

section \<open>Properties of the response parser\<close>

lemma replace_first_prefix: "replace_first part (part @ rest) = rest"
proof (cases "part @ rest")
  case Nil
  then show ?thesis by simp
next
  case (Cons c cs)
  then have "replace_first part (c # cs) = drop (length part) (c # cs)"
    by (metis append_eq_conv_conj replace_first.simps(2))
  then show ?thesis using Cons by (metis append_eq_conv_conj)
qed

lemma trim_fix: "s = [] \<or> (\<not> is_space (hd s) \<and> \<not> is_space (last s)) \<Longrightarrow> trim s = s"
proof (cases s)
  case Nil
  then show ?thesis by (simp add: trim_def)
next
  case (Cons c cs)
  assume "s = [] \<or> (\<not> is_space (hd s) \<and> \<not> is_space (last s))"
  with Cons have h: "\<not> is_space (hd s)" and l: "\<not> is_space (last s)" by auto
  from h Cons have 1: "dropWhile is_space s = s" by simp
  from l have "\<not> is_space (hd (rev s))" by (metis hd_rev)
  then have 2: "dropWhile is_space (rev s) = rev s" using Cons by (cases "rev s") auto
  show ?thesis by (simp add: trim_def 1 2)
qed

lemma trim_ends: "trim s \<noteq> [] \<Longrightarrow> \<not> is_space (hd (trim s)) \<and> \<not> is_space (last (trim s))"
proof -
  assume ne: "trim s \<noteq> []"
  define t where "t = dropWhile is_space s"
  define u where "u = dropWhile is_space (rev t)"
  have tu: "trim s = rev u" by (simp add: trim_def t_def u_def)
  with ne have une: "u \<noteq> []" by simp
  then have hu: "\<not> is_space (hd u)" unfolding u_def by (simp add: hd_dropWhile)
  then have l: "\<not> is_space (last (rev u))" using une by (simp add: last_rev)
  obtain ws where ws: "rev t = ws @ u" unfolding u_def
    by (metis takeWhile_dropWhile_id)
  then have t: "t = rev u @ rev ws" by (metis rev_append rev_rev_ident)
  have tne: "t \<noteq> []" using t une by simp
  then have "\<not> is_space (hd t)" unfolding t_def by (simp add: hd_dropWhile)
  moreover have "hd t = hd (rev u)" using t une by simp
  ultimately show ?thesis using l tu by simp
qed

lemma trim_idem: "trim (trim s) = trim s"
  using trim_fix trim_ends by blast

lemma trim_Nil_iff: "trim p = [] \<longleftrightarrow> (\<forall>c \<in> set p. is_space c)"
proof
  assume "trim p = []"
  then have a: "\<forall>c \<in> set (dropWhile is_space p). is_space c"
    by (simp add: trim_def dropWhile_eq_Nil_conv)
  have "dropWhile is_space p = []"
  proof (rule ccontr)
    assume ne: "dropWhile is_space p \<noteq> []"
    then have "\<not> is_space (hd (dropWhile is_space p))" by (simp add: hd_dropWhile)
    moreover have "hd (dropWhile is_space p) \<in> set (dropWhile is_space p)" using ne by simp
    ultimately show False using a by blast
  qed
  then show "\<forall>c \<in> set p. is_space c" by (simp add: dropWhile_eq_Nil_conv)
next
  assume "\<forall>c \<in> set p. is_space c"
  then have "dropWhile is_space p = []" by (induction p) auto
  then show "trim p = []" unfolding trim_def by (simp del: dropWhile_eq_Nil_conv)
qed

text \<open>
  The shape of a parsed segment. A segment that starts with its literal part is parsed
  by removing that part, splitting the rest at the separator, dropping the pieces that
  are empty and then trimming the pieces that are left. No element of the result has
  white space at either end. The filter runs before the trim, so an element is empty
  exactly when a piece was not empty and held white space only.
\<close>

lemma parseSegment_shape:
  "parseSegment part (part @ rest) = map trim (filter (\<lambda>x. x \<noteq> []) (split_on SEPARATOR rest))
   \<and> (\<forall>x \<in> set (parseSegment part row). trim x = x)
   \<and> ([] \<in> set (parseSegment part row) \<longleftrightarrow>
        (\<exists>p \<in> set (split_on SEPARATOR (replace_first part row)).
            p \<noteq> [] \<and> (\<forall>c \<in> set p. is_space c)))"
proof (intro conjI)
  show "parseSegment part (part @ rest) = map trim (filter (\<lambda>x. x \<noteq> []) (split_on SEPARATOR rest))"
    by (simp add: parseSegment_def replace_first_prefix)
  show "\<forall>x \<in> set (parseSegment part row). trim x = x"
    by (auto simp: parseSegment_def trim_idem)
  show "[] \<in> set (parseSegment part row) \<longleftrightarrow>
        (\<exists>p \<in> set (split_on SEPARATOR (replace_first part row)).
            p \<noteq> [] \<and> (\<forall>c \<in> set p. is_space c))"
  proof
    assume "[] \<in> set (parseSegment part row)"
    then obtain p where "p \<in> set (split_on SEPARATOR (replace_first part row))"
        and "p \<noteq> []" and "trim p = []"
      by (auto simp: parseSegment_def)
    then show "\<exists>p \<in> set (split_on SEPARATOR (replace_first part row)).
            p \<noteq> [] \<and> (\<forall>c \<in> set p. is_space c)"
      using trim_Nil_iff by blast
  next
    assume "\<exists>p \<in> set (split_on SEPARATOR (replace_first part row)).
            p \<noteq> [] \<and> (\<forall>c \<in> set p. is_space c)"
    then obtain p where p: "p \<in> set (split_on SEPARATOR (replace_first part row))"
        and ne: "p \<noteq> []" and "\<forall>c \<in> set p. is_space c"
      by blast
    then have "trim p = []" using trim_Nil_iff by blast
    then have "[] \<in> trim ` {x \<in> set (split_on SEPARATOR (replace_first part row)). x \<noteq> []}"
      using p ne by (metis (mono_tags, lifting) image_eqI mem_Collect_eq)
    then show "[] \<in> set (parseSegment part row)"
      by (simp add: parseSegment_def)
  qed
qed

text \<open>
  Claim C5 fails on the code. The chain drops the empty pieces before it trims, so a
  piece that holds white space only passes the filter and is trimmed to the empty
  string: the key sequence of the segment \<^verbatim>\<open>product attribute keys:color| |size\<close> has
  an empty element, which the template renders as \<^verbatim>\<open><>\<close>, and so has the key sequence
  of a segment that ends in a carriage return.
\<close>

theorem parseSegment_keeps_blank_piece:
  "parseSegment TEMPLATE_PROMPT_PART (js ''product attribute keys:color| |size'')
     = [js ''color'', [], js ''size'']
   \<and> renderTemplate [js ''color'', [], js ''size''] = js ''<color> <> <size>''
   \<and> parseSegment TEMPLATE_PROMPT_PART (js ''product attribute keys:color|size|'' @ [13])
     = [js ''color'', js ''size'', []]"
  by code_simp

section \<open>Properties of the row reconciler\<close>

lemma map_of_obj_set: "map_of (obj_set k v ob) = (map_of ob)(k \<mapsto> v)"
  by (induction ob) (auto simp: fun_eq_iff)

lemma obj_get_obj_set: "obj_get (obj_set k v ob) k' = (if k' = k then v else obj_get ob k')"
  by (simp add: obj_get_def map_of_obj_set)

lemma keys_obj_set: "set (obj_keys (obj_set k v ob)) = insert k (set (obj_keys ob))"
  by (simp add: obj_keys_def dom_map_of_conv_image_fst [symmetric] map_of_obj_set)

lemma reconcile_snoc:
  "reconcile d os (ks @ [k]) vs = forEachStep d os vs (reconcile d os ks vs) (k, length ks)"
  by (simp add: reconcile_def)

lemma obj_get_obj_assign_other:
  "k' \<noteq> k \<Longrightarrow> obj_get (obj_assign k v ob) k' = obj_get ob k'"
  by (simp add: obj_assign_def obj_get_obj_set)

lemma obj_get_obj_assign_same:
  "k \<noteq> js ''__proto__'' \<Longrightarrow> obj_get (obj_assign k v ob) k = v"
  by (simp add: obj_assign_def obj_get_obj_set)

lemma keys_obj_assign:
  "set (obj_keys (obj_assign k v ob)) =
     (if k = js ''__proto__'' \<and> k \<notin> set (obj_keys ob) then set (obj_keys ob)
      else insert k (set (obj_keys ob)))"
  by (auto simp: obj_assign_def keys_obj_set)

lemma proto_in_protoMembers: "js ''__proto__'' \<in> set protoMembers"
  by (simp add: protoMembers_def)

lemma gap_snoc:
  "gapAttributesAndValues d os (ks @ [k]) vs =
     (if isGap d os k
      then obj_assign k (js_index vs (length ks)) (gapAttributesAndValues d os ks vs)
      else gapAttributesAndValues d os ks vs)"
  by (simp add: gapAttributesAndValues_def reconcile_snoc forEachStep_def split: prod.splits)

lemma titleFeatures_snoc:
  "titleFeatures d os (ks @ [k]) vs =
     titleFeatures d os ks vs @ [js_or (obj_get d k) (js_index vs (length ks))]"
  by (simp add: titleFeatures_def reconcile_snoc forEachStep_def split: prod.splits)

lemma gap_keys:
  "set (obj_keys (gapAttributesAndValues d os ks vs))
     = {k \<in> set ks. isGap d os k \<and> k \<noteq> js ''__proto__''}"
proof (induction ks rule: rev_induct)
  case Nil
  show ?case by (simp add: gapAttributesAndValues_def reconcile_def obj_keys_def)
next
  case (snoc k ks)
  then show ?case by (auto simp: gap_snoc keys_obj_assign)
qed

text \<open>
  A key that is no column of the row but names an inherited member reads as that
  member, which is truthy, so it is no gap.
\<close>

lemma inherited_key_is_no_gap:
  "k \<in> set protoMembers \<Longrightarrow> k \<notin> set (obj_keys d) \<Longrightarrow> \<not> isGap d os k"
proof -
  assume p: "k \<in> set protoMembers" and n: "k \<notin> set (obj_keys d)"
  from n have "map_of d k = None" by (simp add: obj_keys_def map_of_eq_None_iff)
  with p have "obj_get d k = Inherited k" by (simp add: obj_get_def)
  then show ?thesis by (simp add: isGap_def)
qed

lemma gap_value:
  "i < length ks \<Longrightarrow> isGap d os (ks ! i) \<Longrightarrow> ks ! i \<noteq> js ''__proto__'' \<Longrightarrow>
   ks ! i \<notin> set (drop (Suc i) ks) \<Longrightarrow>
     obj_get (gapAttributesAndValues d os ks vs) (ks ! i) = js_index vs i"
proof (induction ks rule: rev_induct)
  case Nil
  then show ?case by simp
next
  case (snoc k ks)
  show ?case
  proof (cases "i < length ks")
    case True
    then have nth: "(ks @ [k]) ! i = ks ! i" by (simp add: nth_append)
    from snoc.prems(4) True nth have ne: "ks ! i \<noteq> k" and later: "ks ! i \<notin> set (drop (Suc i) ks)"
      by auto
    from snoc.prems(2,3) nth have "isGap d os (ks ! i)" and "ks ! i \<noteq> js ''__proto__''"
      by simp_all
    with snoc.IH True later have "obj_get (gapAttributesAndValues d os ks vs) (ks ! i) = js_index vs i"
      by simp
    with ne nth show ?thesis by (simp add: gap_snoc obj_get_obj_assign_other)
  next
    case False
    with snoc.prems(1) have i: "i = length ks" by simp
    with snoc.prems(2,3) have "isGap d os k" and "k \<noteq> js ''__proto__''" by simp_all
    with i show ?thesis by (simp add: gap_snoc obj_get_obj_assign_same)
  qed
qed

lemma titleFeatures_length: "length (titleFeatures d os ks vs) = length ks"
  by (induction ks rule: rev_induct)
     (simp_all add: titleFeatures_snoc, simp add: titleFeatures_def reconcile_def)

lemma titleFeatures_nth:
  "i < length ks \<Longrightarrow>
     titleFeatures d os ks vs ! i = js_or (obj_get d (ks ! i)) (js_index vs i)"
proof (induction ks rule: rev_induct)
  case Nil
  then show ?case by simp
next
  case (snoc k ks)
  show ?case
  proof (cases "i < length ks")
    case True
    with snoc.IH show ?thesis
      by (simp add: titleFeatures_snoc nth_append titleFeatures_length)
  next
    case False
    with snoc.prems have "i = length ks" by simp
    then show ?thesis
      by (simp add: titleFeatures_snoc nth_append titleFeatures_length)
  qed
qed

lemma gap_value_beyond:
  "i < length ks \<Longrightarrow> isGap d os (ks ! i) \<Longrightarrow> ks ! i \<noteq> js ''__proto__'' \<Longrightarrow>
   length vs \<le> i \<Longrightarrow>
     obj_get (gapAttributesAndValues d os ks vs) (ks ! i) = Undefined"
proof (induction ks rule: rev_induct)
  case Nil
  then show ?case by simp
next
  case (snoc k ks)
  show ?case
  proof (cases "i < length ks")
    case True
    then have nth: "(ks @ [k]) ! i = ks ! i" by (simp add: nth_append)
    with snoc.prems(2,3) have g: "isGap d os (ks ! i)" and p: "ks ! i \<noteq> js ''__proto__''"
      by simp_all
    with snoc.IH True snoc.prems(4)
    have ih: "obj_get (gapAttributesAndValues d os ks vs) (ks ! i) = Undefined" by simp
    from True snoc.prems(4) have u: "js_index vs (length ks) = Undefined"
      by (simp add: js_index_def)
    show ?thesis
    proof (cases "ks ! i = k")
      case True
      with g p u nth show ?thesis by (simp add: gap_snoc obj_get_obj_assign_same)
    next
      case False
      with ih nth show ?thesis by (simp add: gap_snoc obj_get_obj_assign_other)
    qed
  next
    case False
    with snoc.prems(1) have i: "i = length ks" by simp
    with snoc.prems(2,3) have "isGap d os k" and "k \<noteq> js ''__proto__''" by simp_all
    moreover from i snoc.prems(4) have "js_index vs (length ks) = Undefined"
      by (simp add: js_index_def)
    ultimately show ?thesis using i by (simp add: gap_snoc obj_get_obj_assign_same)
  qed
qed

lemma example_dataObj:
  "dataObjOf example_headers example_data =
     [(js ''item_id'', Str (js ''1'')), (js ''title'', Str (js ''Red Shoe'')), (js ''color'', Str [])]"
  by code_simp

lemma example_parse:
  "parseResponse example_response =
     Inr \<lparr> origAttributes = [js ''color''], genCategory = js ''Footwear'',
           genAttributes = [js ''color'', js ''size''], genAttributeValues = [js ''Red'', js ''10''] \<rparr>"
  by code_simp

lemma example_gap:
  "gapAttributesAndValues [(js ''item_id'', Str (js ''1'')), (js ''title'', Str (js ''Red Shoe'')), (js ''color'', Str [])]
     [js ''color''] [js ''color'', js ''size''] [js ''Red'', js ''10'']
   = [(js ''color'', Str (js ''Red'')), (js ''size'', Str (js ''10''))]"
  by code_simp

lemma example_title:
  "genTitleOf (titleFeatures [(js ''item_id'', Str (js ''1'')), (js ''title'', Str (js ''Red Shoe'')), (js ''color'', Str [])]
     [js ''color''] [js ''color'', js ''size''] [js ''Red'', js ''10'']) = js ''Red 10''"
  by code_simp

lemma example_template: "renderTemplate [js ''color'', js ''size''] = js ''<color> <size>''"
  by code_simp

lemma example_full:
  "optimizeRow example_settings example_predictTitle example_predictDescription example_headers example_data
   = Inr [Bool False, Val (Str (js ''Success'')), Val (Str (js ''1'')),
      Val (Str (js ''Red 10'')), Val (Str (js ''A red shoe.'')),
      Val (Str (js ''Footwear'')), Val (Str (js ''1'')), Val (Str (js ''true'')),
      Val (Str (js ''<color>'')), Val (Str (js ''<color> <size>'')),
      Val (Str (js ''<size>'')), Val (Str []),
      JsonText [(js ''color'', js ''Red''), (js ''size'', js ''10'')],
      JsonText
       [(js ''item_id'', js ''1''), (js ''title'', js ''Red Shoe''), (js ''color'', []),
        (js ''Generated Title'', js ''Red 10'')],
      Val (Str (js ''Red Shoe'')), Val Undefined,
      Val (Str (example_response @ [10] @ js ''product description: A red shoe.''))]"
  by code_simp

lemma counter_gap:
  "gapAttributesAndValues [] [] [js ''size'', js ''size''] [js ''S'', js ''M''] = [(js ''size'', Str (js ''M''))]"
  by code_simp

text \<open>
  Claim C1, as the code has it, for a key that names no member inherited from
  \<^verbatim>\<open>Object.prototype\<close>. Such a key of the generated-attribute-key sequence is a key
  of \<^verbatim>\<open>gapAttributesAndValues\<close> exactly when the row context's value for it is falsy
  and the key is either absent from the original-title template or a key of the row
  context. The loop writes the map once per occurrence, so when the key is in the map it
  maps to the generated value at the index of the key's last occurrence in the sequence
  (which is undefined when the value sequence ends before that index).
\<close>

theorem gap_map_of_reconciler:
  assumes "k \<in> set genAttrs" and "k \<notin> set protoMembers"
  shows "(k \<in> set (obj_keys (gapAttributesAndValues dataObj origAttrs genAttrs genValues)) \<longleftrightarrow>
            \<not> truthy (obj_get dataObj k) \<and>
            (k \<notin> set origAttrs \<or> k \<in> set (obj_keys dataObj)))
       \<and> (\<forall>i < length genAttrs.
             genAttrs ! i = k \<and> k \<notin> set (drop (Suc i) genAttrs) \<and>
             k \<in> set (obj_keys (gapAttributesAndValues dataObj origAttrs genAttrs genValues)) \<longrightarrow>
             obj_get (gapAttributesAndValues dataObj origAttrs genAttrs genValues) k
               = js_index genValues i)"
proof (intro conjI allI impI)
  from assms(2) proto_in_protoMembers have np: "k \<noteq> js ''__proto__''" by auto
  show "k \<in> set (obj_keys (gapAttributesAndValues dataObj origAttrs genAttrs genValues)) \<longleftrightarrow>
            \<not> truthy (obj_get dataObj k) \<and>
            (k \<notin> set origAttrs \<or> k \<in> set (obj_keys dataObj))"
    using assms(1) np by (simp add: gap_keys isGap_def)
  fix i
  assume i: "i < length genAttrs"
    and h: "genAttrs ! i = k \<and> k \<notin> set (drop (Suc i) genAttrs) \<and>
             k \<in> set (obj_keys (gapAttributesAndValues dataObj origAttrs genAttrs genValues))"
  then have "isGap dataObj origAttrs (genAttrs ! i)" by (simp add: gap_keys)
  with i h np gap_value [of i genAttrs dataObj origAttrs genValues]
  show "obj_get (gapAttributesAndValues dataObj origAttrs genAttrs genValues) k
               = js_index genValues i"
    by simp
qed

text \<open>
  The theorem at the example row: \<^verbatim>\<open>size\<close> is no column of the row and no inherited
  name, it is in the map and maps to the second generated value.
\<close>

theorem gap_map_of_reconciler_witness:
  "js ''size'' \<in> set [js ''color'', js ''size'']
   \<and> js ''size'' \<notin> set protoMembers
   \<and> \<not> truthy (obj_get (dataObjOf example_headers example_data) (js ''size''))
   \<and> js ''size'' \<in> set (obj_keys (gapAttributesAndValues (dataObjOf example_headers example_data)
                                  [js ''color''] [js ''color'', js ''size''] [js ''Red'', js ''10'']))
   \<and> obj_get (gapAttributesAndValues (dataObjOf example_headers example_data)
                 [js ''color''] [js ''color'', js ''size''] [js ''Red'', js ''10'']) (js ''size'')
       = Str (js ''10'')"
proof -
  let ?d = "dataObjOf example_headers example_data"
  let ?g = "gapAttributesAndValues ?d [js ''color''] [js ''color'', js ''size''] [js ''Red'', js ''10'']"
  have mem: "js ''size'' \<in> set [js ''color'', js ''size'']" by simp
  have np: "js ''size'' \<notin> set protoMembers" by (simp add: protoMembers_def js_def)
  have falsy: "\<not> truthy (obj_get ?d (js ''size''))"
    by (simp add: example_dataObj obj_get_def protoMembers_def js_def)
  have absent: "js ''size'' \<notin> set [js ''color'']" by (simp add: js_def)
  note t = gap_map_of_reconciler [OF mem np, of ?d "[js ''color'']" "[js ''Red'', js ''10'']"]
  from t falsy absent have key: "js ''size'' \<in> set (obj_keys ?g)" by blast
  have "(1::nat) < length [js ''color'', js ''size'']"
    and "[js ''color'', js ''size''] ! 1 = js ''size''"
    and "js ''size'' \<notin> set (drop (Suc 1) [js ''color'', js ''size''])"
    by simp_all
  with t key have "obj_get ?g (js ''size'') = js_index [js ''Red'', js ''10''] 1" by blast
  then have "obj_get ?g (js ''size'') = Str (js ''10'')" by (simp add: js_index_def)
  with mem np falsy key show ?thesis by blast
qed

text \<open>
  Claim C1 as the specification words it fails where a key occurs twice: for the keys
  \<^verbatim>\<open>size|size\<close> and the values \<^verbatim>\<open>S|M\<close> the key at index 0 is in the map, and the map
  holds the value at index 1 and not the one at index 0.
\<close>

theorem gap_map_same_index_counterexample:
  "[js ''size'', js ''size''] ! 0 \<in> set (obj_keys (gapAttributesAndValues [] [] [js ''size'', js ''size''] [js ''S'', js ''M'']))
   \<and> obj_get (gapAttributesAndValues [] [] [js ''size'', js ''size''] [js ''S'', js ''M'']) ([js ''size'', js ''size''] ! 0)
       \<noteq> js_index [js ''S'', js ''M''] 0"
  unfolding counter_gap by (simp add: obj_keys_def obj_get_def js_index_def js_def)

section \<open>Properties of the row optimisation\<close>

lemma assign_generated_title:
  "obj_assign (js ''Generated Title'') v ob = obj_set (js ''Generated Title'') v ob"
  by (simp add: obj_assign_def js_def)

text \<open>
  Claim C2, as the code has it. For the row \<^verbatim>\<open>{item_id:"1", title:"Red Shoe", color:""}\<close>
  and the four-line response of the specification, whenever the description call
  succeeds, the generated template is \<^verbatim>\<open><color> <size>\<close>, the serialised gap map is
  \<^verbatim>\<open>{color:"Red", size:"10"}\<close> and the generated title is \<^verbatim>\<open>Red 10\<close>: the colour cell is
  empty, so the colour is a gap and its feature is the generated value; the title column
  is no key of the template.
\<close>

theorem example_row_outcome:
  assumes "predictDescription
             (obj_set (js ''Generated Title'') (Str (js ''Red 10'')) (dataObjOf example_headers example_data))
           = Inr d"
  shows "selectCells [9, 12, 3]
           (optimizeRow st example_predictTitle predictDescription example_headers example_data)
         = Inr [Val (Str (js ''<color> <size>'')),
                JsonText [(js ''color'', js ''Red''), (js ''size'', js ''10'')],
                Val (Str (js ''Red 10''))]"
  using assms
  by (simp add: optimizeRow_def fetchTitleGenerationData_def example_predictTitle_def
        fetchDescriptionGenerationData_def assign_generated_title example_dataObj example_parse example_gap
        example_title example_template selectCells_def row_get_def Let_def obj_keys_def
        JSON_stringify_def)

text \<open>The theorem with the example settings and a description call that succeeds.\<close>

theorem example_row_outcome_witness:
  "selectCells [9, 12, 3]
     (optimizeRow example_settings example_predictTitle example_predictDescription
        example_headers example_data)
   = Inr [Val (Str (js ''<color> <size>'')),
          JsonText [(js ''color'', js ''Red''), (js ''size'', js ''10'')],
          Val (Str (js ''Red 10''))]"
proof -
  have "example_predictDescription
          (obj_set (js ''Generated Title'') (Str (js ''Red 10'')) (dataObjOf example_headers example_data))
        = Inr (js ''A red shoe.'')"
    by (simp add: example_predictDescription_def)
  then show ?thesis by (rule example_row_outcome)
qed

text \<open>
  Claim C2 as the specification words it fails: the three cells are not the template
  \<^verbatim>\<open><color> <size>\<close>, the gap map \<^verbatim>\<open>{size:"10"}\<close> and the title \<^verbatim>\<open>Red Shoe 10\<close>.
\<close>

theorem example_row_spec_values_counterexample:
  "selectCells [9, 12, 3]
     (optimizeRow example_settings example_predictTitle example_predictDescription
        example_headers example_data)
   \<noteq> Inr [Val (Str (js ''<color> <size>'')),
          JsonText [(js ''size'', js ''10'')],
          Val (Str (js ''Red Shoe 10''))]"
  by (simp add: example_full selectCells_def row_get_def)

lemma stringify_obj_set_mem:
  "(k, t) \<in> set (JSON_stringify (obj_set k (Str t) ob))"
  by (induction ob) (auto simp: JSON_stringify_def)

lemma example_short_parse:
  "parseResponse example_short_response =
     Inr \<lparr> origAttributes = [js ''color''], genCategory = js ''Footwear'',
           genAttributes = [js ''color'', js ''size''], genAttributeValues = [js ''Red''] \<rparr>"
  by code_simp

lemma example_short_gap:
  "gapAttributesAndValues [(js ''item_id'', Str (js ''1'')), (js ''title'', Str (js ''Red Shoe'')), (js ''color'', Str [])]
     [js ''color''] [js ''color'', js ''size''] [js ''Red'']
   = [(js ''color'', Str (js ''Red'')), (js ''size'', Undefined)]"
  by code_simp

lemma example_short_full:
  "optimizeRow example_settings example_predictShort example_predictDescription example_headers example_data
   = Inr [Bool False, Val (Str (js ''Success'')), Val (Str (js ''1'')),
      Val (Str (js ''Red '')), Val (Str (js ''A red shoe.'')),
      Val (Str (js ''Footwear'')), Val (Str (js ''1'')), Val (Str (js ''true'')),
      Val (Str (js ''<color>'')), Val (Str (js ''<color> <size>'')),
      Val (Str (js ''<size>'')), Val (Str []),
      JsonText [(js ''color'', js ''Red'')],
      JsonText
       [(js ''item_id'', js ''1''), (js ''title'', js ''Red Shoe''), (js ''color'', []),
        (js ''Generated Title'', js ''Red '')],
      Val (Str (js ''Red Shoe'')), Val Undefined,
      Val (Str (example_short_response @ [10] @ js ''product description: A red shoe.''))]"
  by code_simp

lemma example_titleKey_parse:
  "parseResponse example_titleKey_response =
     Inr \<lparr> origAttributes = [js ''color''], genCategory = js ''Footwear'',
           genAttributes = [js ''color'', js ''title''], genAttributeValues = [js ''Red''] \<rparr>"
  by code_simp

lemma example_titleKey_features:
  "titleFeatures [(js ''item_id'', Str (js ''1'')), (js ''title'', Str (js ''Red Shoe'')), (js ''color'', Str [])]
     [js ''color''] [js ''color'', js ''title''] [js ''Red'']
   = [Str (js ''Red''), Str (js ''Red Shoe'')]"
  by code_simp

text \<open>
  Claim C10, as the code has it. Let the response have its four lines and let the parsed
  value sequence be shorter than the key sequence. Then \<^verbatim>\<open>optimizeRow\<close> throws only
  if the description call throws, and a row it returns has the status \<^verbatim>\<open>Success\<close> and
  the joined features as its title. For each index beyond the value sequence the value
  read is undefined; the title feature of a key that names no member inherited from
  \<^verbatim>\<open>Object.prototype\<close> is the row context's value if that is truthy and undefined
  otherwise; and the entry of the gap map for the key, if there is one, is undefined.
\<close>

theorem short_value_sequence_yields_absent_values:
  assumes "predictTitle (dataObjOf headers data) = Inr res"
    and "parseResponse res = Inr p"
    and "length (genAttributeValues p) < length (genAttributes p)"
  shows "(\<forall>e. optimizeRow st predictTitle predictDescription headers data = Inl e \<longrightarrow>
            predictDescription
              (obj_set (js ''Generated Title'')
                 (Str (genTitleOf (titleFeatures (dataObjOf headers data) (origAttributes p)
                                     (genAttributes p) (genAttributeValues p))))
                 (dataObjOf headers data)) = Inl e)
       \<and> (\<forall>row. optimizeRow st predictTitle predictDescription headers data = Inr row \<longrightarrow>
            row_get row 1 = Val (Str (js ''Success'')) \<and>
            row_get row 3 = Val (Str (genTitleOf (titleFeatures (dataObjOf headers data)
                 (origAttributes p) (genAttributes p) (genAttributeValues p)))))
       \<and> (\<forall>i. length (genAttributeValues p) \<le> i \<and> i < length (genAttributes p) \<longrightarrow>
            js_index (genAttributeValues p) i = Undefined \<and>
            (genAttributes p ! i \<notin> set protoMembers \<longrightarrow>
             titleFeatures (dataObjOf headers data) (origAttributes p)
                 (genAttributes p) (genAttributeValues p) ! i
               = js_or (obj_get (dataObjOf headers data) (genAttributes p ! i)) Undefined) \<and>
            (genAttributes p ! i \<in> set (obj_keys (gapAttributesAndValues (dataObjOf headers data)
                 (origAttributes p) (genAttributes p) (genAttributeValues p))) \<longrightarrow>
             obj_get (gapAttributesAndValues (dataObjOf headers data)
                 (origAttributes p) (genAttributes p) (genAttributeValues p)) (genAttributes p ! i)
               = Undefined))"
proof (intro conjI allI impI)
  fix e
  assume "optimizeRow st predictTitle predictDescription headers data = Inl e"
  with assms(1,2) show "predictDescription
              (obj_set (js ''Generated Title'')
                 (Str (genTitleOf (titleFeatures (dataObjOf headers data) (origAttributes p)
                                     (genAttributes p) (genAttributeValues p))))
                 (dataObjOf headers data)) = Inl e"
    by (simp add: optimizeRow_def fetchTitleGenerationData_def fetchDescriptionGenerationData_def assign_generated_title
          Let_def split: sum.splits)
next
  fix row
  assume r: "optimizeRow st predictTitle predictDescription headers data = Inr row"
  with assms(1,2) show "row_get row 1 = Val (Str (js ''Success''))"
    by (auto simp: optimizeRow_def fetchTitleGenerationData_def fetchDescriptionGenerationData_def assign_generated_title
          Let_def row_get_def split: sum.splits)
  from r assms(1,2) show "row_get row 3 = Val (Str (genTitleOf (titleFeatures (dataObjOf headers data)
                 (origAttributes p) (genAttributes p) (genAttributeValues p))))"
    by (auto simp: optimizeRow_def fetchTitleGenerationData_def fetchDescriptionGenerationData_def assign_generated_title
          Let_def row_get_def split: sum.splits)
next
  fix i
  assume i: "length (genAttributeValues p) \<le> i \<and> i < length (genAttributes p)"
  then show "js_index (genAttributeValues p) i = Undefined" by (simp add: js_index_def)
next
  fix i
  assume i: "length (genAttributeValues p) \<le> i \<and> i < length (genAttributes p)"
  then have u: "js_index (genAttributeValues p) i = Undefined" by (simp add: js_index_def)
  from i show "titleFeatures (dataObjOf headers data) (origAttributes p)
                (genAttributes p) (genAttributeValues p) ! i
              = js_or (obj_get (dataObjOf headers data) (genAttributes p ! i)) Undefined"
    by (simp add: titleFeatures_nth u)
next
  fix i
  assume i: "length (genAttributeValues p) \<le> i \<and> i < length (genAttributes p)"
    and k: "genAttributes p ! i \<in> set (obj_keys (gapAttributesAndValues (dataObjOf headers data)
                 (origAttributes p) (genAttributes p) (genAttributeValues p)))"
  from k have "isGap (dataObjOf headers data) (origAttributes p) (genAttributes p ! i)"
    and "genAttributes p ! i \<noteq> js ''__proto__''"
    by (simp_all add: gap_keys)
  with i show "obj_get (gapAttributesAndValues (dataObjOf headers data)
                 (origAttributes p) (genAttributes p) (genAttributeValues p)) (genAttributes p ! i)
               = Undefined"
    by (simp add: gap_value_beyond)
qed

text \<open>
  The theorem at the example row with the value line \<^verbatim>\<open>Red|\<close>: the row is a
  \<^verbatim>\<open>Success\<close> row with the title \<^verbatim>\<open>Red \<close>, and the feature and the gap entry of
  \<^verbatim>\<open>size\<close>, which is no inherited name, are undefined.
\<close>

theorem short_value_sequence_yields_absent_values_witness:
  "length [js ''Red''] < length [js ''color'', js ''size'']
   \<and> selectCells [1, 3]
        (optimizeRow example_settings example_predictShort example_predictDescription
           example_headers example_data)
      = Inr [Val (Str (js ''Success'')), Val (Str (js ''Red ''))]
   \<and> titleFeatures (dataObjOf example_headers example_data)
        [js ''color''] [js ''color'', js ''size''] [js ''Red''] ! 1 = Undefined
   \<and> js ''size'' \<in> set (obj_keys (gapAttributesAndValues (dataObjOf example_headers example_data)
                                  [js ''color''] [js ''color'', js ''size''] [js ''Red'']))
   \<and> obj_get (gapAttributesAndValues (dataObjOf example_headers example_data)
                 [js ''color''] [js ''color'', js ''size''] [js ''Red'']) (js ''size'') = Undefined"
proof -
  let ?p = "\<lparr> origAttributes = [js ''color''], genCategory = js ''Footwear'',
              genAttributes = [js ''color'', js ''size''], genAttributeValues = [js ''Red''] \<rparr>"
  let ?d = "dataObjOf example_headers example_data"
  let ?g = "gapAttributesAndValues ?d [js ''color''] [js ''color'', js ''size''] [js ''Red'']"
  have a1: "example_predictShort ?d = Inr example_short_response"
    by (simp add: example_predictShort_def)
  have a2: "parseResponse example_short_response = Inr ?p"
    by (rule example_short_parse)
  have a3: "length (genAttributeValues ?p) < length (genAttributes ?p)" by simp
  note t = short_value_sequence_yields_absent_values
             [where predictTitle = example_predictShort and headers = example_headers
                and data = example_data and res = example_short_response and p = ?p
                and st = example_settings and predictDescription = example_predictDescription,
              OF a1 a2 a3]
  have key: "js ''size'' \<in> set (obj_keys ?g)"
    by (simp add: example_dataObj example_short_gap obj_keys_def)
  have np: "js ''size'' \<notin> set protoMembers" by (simp add: protoMembers_def js_def)
  have falsy: "obj_get ?d (js ''size'') = Undefined"
    unfolding example_dataObj by (simp add: obj_get_def protoMembers_def js_def)
  from t have "length (genAttributeValues ?p) \<le> 1 \<and> 1 < length (genAttributes ?p) \<longrightarrow>
       (genAttributes ?p ! 1 \<notin> set protoMembers \<longrightarrow>
        titleFeatures ?d (origAttributes ?p) (genAttributes ?p) (genAttributeValues ?p) ! 1
          = js_or (obj_get ?d (genAttributes ?p ! 1)) Undefined) \<and>
       (genAttributes ?p ! 1 \<in> set (obj_keys (gapAttributesAndValues ?d (origAttributes ?p)
            (genAttributes ?p) (genAttributeValues ?p))) \<longrightarrow>
        obj_get (gapAttributesAndValues ?d (origAttributes ?p) (genAttributes ?p)
            (genAttributeValues ?p)) (genAttributes ?p ! 1) = Undefined)"
    by blast
  with np have f: "titleFeatures ?d [js ''color''] [js ''color'', js ''size''] [js ''Red''] ! 1
                  = js_or (obj_get ?d (js ''size'')) Undefined"
    and g: "js ''size'' \<in> set (obj_keys ?g) \<longrightarrow> obj_get ?g (js ''size'') = Undefined"
    by simp_all
  from f falsy have f': "titleFeatures ?d [js ''color''] [js ''color'', js ''size''] [js ''Red''] ! 1 = Undefined"
    by (simp add: js_or_def)
  from g key have g': "obj_get ?g (js ''size'') = Undefined" by blast
  have row: "selectCells [1, 3]
        (optimizeRow example_settings example_predictShort example_predictDescription
           example_headers example_data)
      = Inr [Val (Str (js ''Success'')), Val (Str (js ''Red ''))]"
    by (simp add: example_short_full selectCells_def row_get_def)
  from row f' key g' show ?thesis by simp
qed

text \<open>
  Claim C10 as it is worded fails for a key that the row fills: with the keys
  \<^verbatim>\<open>color|title\<close> and the one value \<^verbatim>\<open>Red\<close>, the read at index 1 is undefined, but
  the title feature at index 1 is the row's own title and not the absent value.
\<close>

theorem title_feature_beyond_values_counterexample:
  "parseResponse example_titleKey_response =
     Inr \<lparr> origAttributes = [js ''color''], genCategory = js ''Footwear'',
           genAttributes = [js ''color'', js ''title''], genAttributeValues = [js ''Red''] \<rparr>
   \<and> js_index [js ''Red''] 1 = Undefined
   \<and> titleFeatures (dataObjOf example_headers example_data)
        [js ''color''] [js ''color'', js ''title''] [js ''Red''] ! 1 = Str (js ''Red Shoe'')"
  by (simp add: example_titleKey_parse example_dataObj example_titleKey_features js_index_def)

text \<open>
  Claim C4 fails on the code. \<^verbatim>\<open>fetchDescriptionGenerationData\<close> assigns the generated
  title into the object it is given, which is the caller's \<^verbatim>\<open>dataObj\<close>, before the
  record is built. For the example row the original-input cell of the record holds the
  key \<^verbatim>\<open>Generated Title\<close> besides the three columns read from the row.
\<close>

theorem originalInput_blob_gains_generated_title:
  "selectCells [13]
     (optimizeRow example_settings example_predictTitle example_predictDescription
        example_headers example_data)
   = Inr [JsonText [(js ''item_id'', js ''1''), (js ''title'', js ''Red Shoe''), (js ''color'', []),
                    (js ''Generated Title'', js ''Red 10'')]]
   \<and> JSON_stringify (dataObjOf example_headers example_data)
       = [(js ''item_id'', js ''1''), (js ''title'', js ''Red Shoe''), (js ''color'', [])]"
  by (simp add: example_full selectCells_def row_get_def example_dataObj JSON_stringify_def)

text \<open>
  The same for every row that \<^verbatim>\<open>optimizeRow\<close> returns: the original-input cell is
  the serialised row context with the generated title written into it.
\<close>

lemma optimizeRow_originalInput_blob:
  assumes "optimizeRow st predictTitle predictDescription headers data = Inr row"
  shows "\<exists>t. row_get row 3 = Val (Str t)
           \<and> row_get row 13 = JsonText (JSON_stringify
                (obj_set (js ''Generated Title'') (Str t) (dataObjOf headers data)))
           \<and> (js ''Generated Title'', t) \<in> set (JSON_stringify
                (obj_set (js ''Generated Title'') (Str t) (dataObjOf headers data)))"
  using assms
  by (auto simp: optimizeRow_def fetchTitleGenerationData_def fetchDescriptionGenerationData_def assign_generated_title
        Let_def row_get_def stringify_obj_set_mem split: sum.splits)

section \<open>Properties of the metrics scorer\<close>

lemma uniq_Nil_iff: "uniq xs = [] \<longleftrightarrow> xs = []"
  by (simp add: uniq_def)

lemma set_uniq: "set (uniq xs) = set xs"
  by (simp add: uniq_def)

lemma Number_le_1: "Number b \<le> 1"
  by (simp add: Number_def)

lemma scoreSum_le_5: "scoreSum oT gT oS gS iW gap oI \<le> 5"
proof -
  have "scoreSum oT gT oS gS iW gap oI \<le> 1 + 1 + 1 + 1 + 1"
    unfolding scoreSum_def by (intro add_mono Number_le_1)
  then show ?thesis by simp
qed

lemma scoreSum_indicators:
  "scoreSum origTitle genTitle origSet genSet inputWords gap originalInput =
     Number (\<exists>k \<in> set genSet. k \<notin> set origSet) +
     Number (origTitle \<noteq> Str genTitle) +
     Number (\<forall>w \<in> set (matchWords genTitle). toLowerCase w \<in> set inputWords) +
     Number (\<exists>k \<in> set (obj_keys gap). hasProperty originalInput k) +
     Number (\<exists>k \<in> set (obj_keys gap). \<not> hasProperty originalInput k)"
proof -
  have 1: "(length (getSetDifference genSet origSet) > 0) = (\<exists>k \<in> set genSet. k \<notin> set origSet)"
    by (simp add: getSetDifference_def filter_empty_conv)
  have 3: "(length (newWordsAdded genTitle inputWords) = 0)
             = (\<forall>w \<in> set (matchWords genTitle). toLowerCase w \<in> set inputWords)"
    by (simp add: newWordsAdded_def uniq_Nil_iff filter_empty_conv)
  have 4: "(length (gapAttributesPresent gap originalInput) > 0)
             = (\<exists>k \<in> set (obj_keys gap). hasProperty originalInput k)"
    by (simp add: gapAttributesPresent_def filter_empty_conv)
  have 5: "(length (gapAttributesInvented gap originalInput) > 0)
             = (\<exists>k \<in> set (obj_keys gap). \<not> hasProperty originalInput k)"
    by (simp add: gapAttributesInvented_def filter_empty_conv)
  show ?thesis unfolding scoreSum_def 1 3 4 5 ..
qed

lemma numberToString_0: "numberToString 0 = js ''0''"
  by code_simp

lemma numberToString_1: "numberToString (1 / 5) = js ''0.2''"
  by code_simp

lemma numberToString_2: "numberToString (2 / 5) = js ''0.4''"
  by code_simp

lemma numberToString_3: "numberToString (3 / 5) = js ''0.6''"
  by code_simp

lemma numberToString_4: "numberToString (4 / 5) = js ''0.8''"
  by code_simp

lemma numberToString_5: "numberToString 1 = js ''1''"
  by code_simp

lemma numberToString_fifths:
  "n \<le> 5 \<Longrightarrow>
     numberToString (of_nat n / 5)
       = [js ''0'', js ''0.2'', js ''0.4'', js ''0.6'', js ''0.8'', js ''1''] ! n"
proof -
  assume "n \<le> 5"
  then have "n = 0 \<or> n = 1 \<or> n = 2 \<or> n = 3 \<or> n = 4 \<or> n = 5" by arith
  then show ?thesis
    by (elim disjE)
       (simp_all add: numberToString_0 numberToString_1 numberToString_2 numberToString_3
          numberToString_4 numberToString_5)
qed

text \<open>
  Claim C3. The total score that \<^verbatim>\<open>getGenerationMetrics\<close> computes is the mean of five
  indicators, each 0 or 1: a generated key is no original key; the generated title
  differs from the original one; every word of the generated title is, in lower case, an
  input word; a key of the gap map is in the row context; a key of the gap map is not in
  the row context (both by the operator \<^verbatim>\<open>in\<close>). It is one of 0, 1/5, 2/5, 3/5, 4/5
  and 1. The score that the function returns is the decimal text of this mean: the text
  at the position that the number of indicators that hold gives among \<^verbatim>\<open>0\<close>,
  \<^verbatim>\<open>0.2\<close>, \<^verbatim>\<open>0.4\<close>, \<^verbatim>\<open>0.6\<close>, \<^verbatim>\<open>0.8\<close> and \<^verbatim>\<open>1\<close>.
\<close>

theorem totalScore_is_mean_of_five_indicators:
  "totalScore origTitle genTitle origSet genSet inputWords gap originalInput =
     (of_nat (Number (\<exists>k \<in> set genSet. k \<notin> set origSet)) +
      of_nat (Number (origTitle \<noteq> Str genTitle)) +
      of_nat (Number (\<forall>w \<in> set (matchWords genTitle). toLowerCase w \<in> set inputWords)) +
      of_nat (Number (\<exists>k \<in> set (obj_keys gap). hasProperty originalInput k)) +
      of_nat (Number (\<exists>k \<in> set (obj_keys gap). \<not> hasProperty originalInput k))) / 5
   \<and> totalScore origTitle genTitle origSet genSet inputWords gap originalInput
       \<in> {0, 1 / 5, 2 / 5, 3 / 5, 4 / 5, 1}
   \<and> m_totalScore (getGenerationMetrics origTitle genTitle origSet genSet inputWords gap originalInput)
       = numberToString
           ((of_nat (Number (\<exists>k \<in> set genSet. k \<notin> set origSet)) +
             of_nat (Number (origTitle \<noteq> Str genTitle)) +
             of_nat (Number (\<forall>w \<in> set (matchWords genTitle). toLowerCase w \<in> set inputWords)) +
             of_nat (Number (\<exists>k \<in> set (obj_keys gap). hasProperty originalInput k)) +
             of_nat (Number (\<exists>k \<in> set (obj_keys gap). \<not> hasProperty originalInput k))) / 5)
   \<and> m_totalScore (getGenerationMetrics origTitle genTitle origSet genSet inputWords gap originalInput)
       = [js ''0'', js ''0.2'', js ''0.4'', js ''0.6'', js ''0.8'', js ''1'']
           ! (Number (\<exists>k \<in> set genSet. k \<notin> set origSet) +
              Number (origTitle \<noteq> Str genTitle) +
              Number (\<forall>w \<in> set (matchWords genTitle). toLowerCase w \<in> set inputWords) +
              Number (\<exists>k \<in> set (obj_keys gap). hasProperty originalInput k) +
              Number (\<exists>k \<in> set (obj_keys gap). \<not> hasProperty originalInput k))"
proof -
  let ?n = "scoreSum origTitle genTitle origSet genSet inputWords gap originalInput"
  let ?t = "totalScore origTitle genTitle origSet genSet inputWords gap originalInput"
  let ?m = "m_totalScore (getGenerationMetrics origTitle genTitle origSet genSet inputWords
                            gap originalInput)"
  have mean: "?t = of_nat ?n / 5" by (simp add: totalScore_def)
  have le: "?n \<le> 5" by (rule scoreSum_le_5)
  then have cases: "?n = 0 \<or> ?n = 1 \<or> ?n = 2 \<or> ?n = 3 \<or> ?n = 4 \<or> ?n = 5" by arith
  have range: "?t \<in> {0, 1 / 5, 2 / 5, 3 / 5, 4 / 5, 1}"
    using cases unfolding mean by auto
  have str: "?m = numberToString (of_nat ?n / 5)"
    by (simp add: getGenerationMetrics_def totalScore_def)
  have tbl: "?m = [js ''0'', js ''0.2'', js ''0.4'', js ''0.6'', js ''0.8'', js ''1''] ! ?n"
    unfolding str using le by (rule numberToString_fifths)
  from mean range str tbl show ?thesis
    unfolding scoreSum_indicators by (simp only: of_nat_add)
qed

text \<open>
  The theorem at a title that gains the new word \<^verbatim>\<open>10\<close> from an invented attribute:
  three of the five indicators hold and the returned score is \<^verbatim>\<open>0.6\<close>.
\<close>

theorem totalScore_is_mean_of_five_indicators_witness:
  "m_totalScore
     (getGenerationMetrics (Str (js ''Red Shoe'')) (js ''Red Shoe 10'') [js ''color'']
        [js ''color'', js ''size''] [js ''red'', js ''shoe''] [(js ''size'', Str (js ''10''))]
        [(js ''title'', Str (js ''Red Shoe'')), (js ''color'', Str [])])
   = js ''0.6''
   \<and> totalScore (Str (js ''Red Shoe'')) (js ''Red Shoe 10'') [js ''color'']
        [js ''color'', js ''size''] [js ''red'', js ''shoe''] [(js ''size'', Str (js ''10''))]
        [(js ''title'', Str (js ''Red Shoe'')), (js ''color'', Str [])]
   = 3 / 5"
proof -
  have w: "matchWords (js ''Red Shoe 10'') = [js ''Red'', js ''Shoe'', js ''10'']" by code_simp
  have l1: "toLowerCase (js ''Red'') = js ''red''" by code_simp
  have l2: "toLowerCase (js ''Shoe'') = js ''shoe''" by code_simp
  have l3: "toLowerCase (js ''10'') = js ''10''" by code_simp
  have b1: "(\<exists>k \<in> set [js ''color'', js ''size'']. k \<notin> set [js ''color'']) = True"
    by (simp add: js_def)
  have b2: "(Str (js ''Red Shoe'') \<noteq> Str (js ''Red Shoe 10'')) = True"
    by (simp add: js_def)
  have b3: "(\<forall>w \<in> set (matchWords (js ''Red Shoe 10'')).
               toLowerCase w \<in> set [js ''red'', js ''shoe'']) = False"
    unfolding w by (simp add: l1 l2 l3) (simp add: js_def)
  have b4: "(\<exists>k \<in> set (obj_keys [(js ''size'', Str (js ''10''))]).
               hasProperty [(js ''title'', Str (js ''Red Shoe'')), (js ''color'', Str [])] k) = False"
    by (simp add: obj_keys_def hasProperty_def protoMembers_def js_def)
  have b5: "(\<exists>k \<in> set (obj_keys [(js ''size'', Str (js ''10''))]).
               \<not> hasProperty [(js ''title'', Str (js ''Red Shoe'')), (js ''color'', Str [])] k) = True"
    by (simp add: obj_keys_def hasProperty_def protoMembers_def js_def)
  note t = totalScore_is_mean_of_five_indicators
         [of "Str (js ''Red Shoe'')" "js ''Red Shoe 10''" "[js ''color'']" "[js ''color'', js ''size'']"
             "[js ''red'', js ''shoe'']" "[(js ''size'', Str (js ''10''))]"
             "[(js ''title'', Str (js ''Red Shoe'')), (js ''color'', Str [])]"]
  note t' = t [unfolded b1 b2 b3 b4 b5]
  from t' [THEN conjunct1]
  have v: "totalScore (Str (js ''Red Shoe'')) (js ''Red Shoe 10'') [js ''color'']
        [js ''color'', js ''size''] [js ''red'', js ''shoe''] [(js ''size'', Str (js ''10''))]
        [(js ''title'', Str (js ''Red Shoe'')), (js ''color'', Str [])]
   = 3 / 5"
    by (simp add: Number_def)
  from t' [THEN conjunct2, THEN conjunct2, THEN conjunct2]
  have "m_totalScore
     (getGenerationMetrics (Str (js ''Red Shoe'')) (js ''Red Shoe 10'') [js ''color'']
        [js ''color'', js ''size''] [js ''red'', js ''shoe''] [(js ''size'', Str (js ''10''))]
        [(js ''title'', Str (js ''Red Shoe'')), (js ''color'', Str [])])
   = js ''0.6''"
    by (simp add: Number_def)
  with v show ?thesis by simp
qed

text \<open>
  A consequence of the assignment in \<^verbatim>\<open>fetchDescriptionGenerationData\<close> for the
  scorer: the input words are taken from the row context after the generated title has
  been written into it, so every word of the generated title is an input word and the
  new-words cell of every row that \<^verbatim>\<open>optimizeRow\<close> returns is empty.
\<close>

lemma entry_mem_obj_set: "(k, v) \<in> set (obj_set k v ob)"
  by (induction ob) auto

lemma value_mem_obj_set: "v \<in> set (obj_values (obj_set k v ob))"
proof -
  have "snd (k, v) \<in> snd ` set (obj_set k v ob)"
    using entry_mem_obj_set by (rule imageI)
  then show ?thesis by (simp add: obj_values_def)
qed

lemma newWordsAdded_of_own_title:
  "newWordsAdded genTitle (inputWordsOf (obj_set k (Str genTitle) ob)) = []"
proof -
  have "\<forall>w \<in> set (matchWords genTitle).
          toLowerCase w \<in> set (inputWordsOf (obj_set k (Str genTitle) ob))"
  proof
    fix w
    assume "w \<in> set (matchWords genTitle)"
    then have "toLowerCase w \<in> set (map toLowerCase (matchWords (to_String (Str genTitle))))"
      by simp
    moreover have "Str genTitle \<in> set (obj_values (obj_set k (Str genTitle) ob))"
      by (rule value_mem_obj_set)
    ultimately have "\<exists>v \<in> set (obj_values (obj_set k (Str genTitle) ob)).
        toLowerCase w \<in> set (map toLowerCase (matchWords (to_String v)))"
      by blast
    then show "toLowerCase w \<in> set (inputWordsOf (obj_set k (Str genTitle) ob))"
      unfolding inputWordsOf_def set_uniq by simp
  qed
  then show ?thesis by (simp add: newWordsAdded_def uniq_Nil_iff filter_empty_conv)
qed

lemma optimizeRow_newWords_cell_empty:
  assumes "optimizeRow st predictTitle predictDescription headers data = Inr row"
  shows "row_get row 11 = Val (Str [])"
  using assms
  by (auto simp: optimizeRow_def fetchTitleGenerationData_def fetchDescriptionGenerationData_def assign_generated_title
        Let_def row_get_def getGenerationMetrics_def newWordsAdded_of_own_title
        split: sum.splits)

section \<open>Properties of the export reconciler\<close>

lemma row_get_arr_set: "row_get (arr_set i v xs) j = (if j = i then v else row_get xs j)"
  by (auto simp: row_get_def arr_set_def nth_append nth_list_update)

lemma collect_Inr: "collect xs = Inr ys \<Longrightarrow> xs = map Inr ys"
  by (induction xs arbitrary: ys) (auto split: sum.splits)

lemma keys_foldl_obj_set:
  "set (obj_keys (foldl (\<lambda>ob (k, v). obj_set k v ob) acc es)) = set (obj_keys acc) \<union> fst ` set es"
proof (induction es arbitrary: acc)
  case Nil
  show ?case by simp
next
  case (Cons e es)
  obtain k v where e: "e = (k, v)" by (cases e)
  have "set (obj_keys (obj_set k v acc)) = insert k (set (obj_keys acc))"
    by (rule keys_obj_set)
  with Cons.IH [of "obj_set k v acc"] e show ?case by auto
qed

lemma keys_JSON_parse: "set (obj_keys (JSON_parse kvs)) = fst ` set kvs"
proof -
  have "fst ` set (map (\<lambda>(k, s). (k, Str s)) kvs) = fst ` set kvs"
    by (induction kvs) auto
  moreover have "set (obj_keys (JSON_parse kvs))
      = set (obj_keys []) \<union> fst ` set (map (\<lambda>(k, s). (k, Str s)) kvs)"
    by (simp only: JSON_parse_def fromEntries_def keys_foldl_obj_set)
  moreover have "set (obj_keys []) = {}" by (simp add: obj_keys_def)
  ultimately show ?thesis by simp
qed

lemma keysOfColumn_set:
  assumes "keysOfColumn col rows = Inr ks"
  shows "k \<in> set ks \<longleftrightarrow>
           (\<exists>row \<in> set rows. \<exists>kvs. row_get row col = JsonText kvs \<and> k \<in> fst ` set kvs)"
proof -
  let ?rs = "filter (\<lambda>row. cell_truthy (row_get row col)) rows"
  from assms obtain objs where c: "collect (map (\<lambda>row. parseCell (row_get row col)) ?rs) = Inr objs"
    and ks: "ks = uniq (concat (map obj_keys objs))"
    by (auto simp: keysOfColumn_def split: sum.splits)
  from c have m: "map (\<lambda>row. parseCell (row_get row col)) ?rs = map Inr objs"
    by (rule collect_Inr)
  have parsed: "\<And>c ob. parseCell c = Inr ob \<longleftrightarrow> (\<exists>kvs. c = JsonText kvs \<and> ob = JSON_parse kvs)"
    by (case_tac c) auto
  show ?thesis
  proof
    assume "k \<in> set ks"
    with ks obtain ob where ob: "ob \<in> set objs" and k: "k \<in> set (obj_keys ob)"
      by (auto simp: set_uniq)
    from ob have "Inr ob \<in> set (map (\<lambda>row. parseCell (row_get row col)) ?rs)"
      by (simp add: m)
    then obtain row where row: "row \<in> set rows" and p: "parseCell (row_get row col) = Inr ob"
      by auto
    from p obtain kvs where "row_get row col = JsonText kvs" and "ob = JSON_parse kvs"
      using parsed by blast
    with k row show "\<exists>row \<in> set rows. \<exists>kvs. row_get row col = JsonText kvs \<and> k \<in> fst ` set kvs"
      by (auto simp: keys_JSON_parse)
  next
    assume "\<exists>row \<in> set rows. \<exists>kvs. row_get row col = JsonText kvs \<and> k \<in> fst ` set kvs"
    then obtain row kvs where row: "row \<in> set rows" and j: "row_get row col = JsonText kvs"
      and k: "k \<in> fst ` set kvs" by blast
    from row j have "row \<in> set ?rs" by simp
    then have "parseCell (row_get row col) \<in> set (map (\<lambda>row. parseCell (row_get row col)) ?rs)"
      by simp
    then have "parseCell (row_get row col) \<in> set (map Inr objs)" by (simp only: m)
    with j have "JSON_parse kvs \<in> set objs" by auto
    moreover from k have "k \<in> set (obj_keys (JSON_parse kvs))" by (simp only: keys_JSON_parse)
    ultimately have "\<exists>ob \<in> set objs. k \<in> set (obj_keys ob)" by blast
    with ks show "k \<in> set ks" by (simp add: set_uniq)
  qed
qed

lemma distinct_uniq: "distinct (uniq xs)"
  by (simp add: uniq_def)

lemma example_partition:
  "getGapAndInventedAttributes example_config [example_rowA, example_rowB]
     = Inr ([js ''material''], [js ''color''])"
  by code_simp

lemma example_approved:
  "approvedRows example_config [example_rowA, example_rowB] = [example_rowA, example_rowB]"
  by code_simp

lemma example_export:
  "exportApproved example_config example_clock [example_rowA, example_rowB]
   = ([Log (Msg (js ''Exporting approved rows...'')),
       Log (Msg (js ''Clearing approved data...'')),
       ClearDefinedRange OutputSheet 1 2, ClearDefinedRange OutputSheet 2 1,
       Log (Msg (js ''Writing approved data...'')),
       SetValuesInDefinedRange OutputSheet 1 2
        [[Val (Str (js ''Item ID'')), Val (Str (js ''Title'')), Val (Str (js ''Description'')),
          Val (Str (js ''color'')), Val (Str (js ''new_material''))]],
       SetValuesInDefinedRange OutputSheet 2 1
        [[Val (Str (js ''2023-06-01T00:00:00.000Z'')), Val (Str (js ''1'')),
          Val (Str (js ''Red Shoe'')), Val (Str (js ''A red shoe.'')), Val (Str (js ''Red'')),
          Val Undefined],
         [Val (Str (js ''2023-06-01T00:00:00.000Z'')), Val (Str (js ''2'')),
          Val (Str (js ''Wood Table'')), Val (Str (js ''A wooden table.'')),
          Val (Str (js ''Brown'')), Val (Str (js ''Wood''))]]],
      None)"
  by code_simp

text \<open>
  Claim C6. When \<^verbatim>\<open>getGapAndInventedAttributes\<close> returns, a key is in one of its two
  lists exactly when it is a key of the gap map of some row; it is in the gap list
  exactly when it is, besides, a key of the original input of some row, and in the
  invented list exactly when it is a key of the original input of no row. The two lists
  share no key and hold no key twice.
\<close>

theorem gap_invented_bipartition:
  assumes "getGapAndInventedAttributes cfg rows = Inr (invented, gap)"
  shows "(k \<in> set gap \<union> set invented \<longleftrightarrow>
            (\<exists>row \<in> set rows. \<exists>kvs. row_get row (generated_cols_gapAttributes cfg) = JsonText kvs
                \<and> k \<in> fst ` set kvs))
       \<and> (k \<in> set gap \<longleftrightarrow> k \<in> set gap \<union> set invented \<and>
            (\<exists>row \<in> set rows. \<exists>kvs. row_get row (generated_cols_originalInput cfg) = JsonText kvs
                \<and> k \<in> fst ` set kvs))
       \<and> (k \<in> set invented \<longleftrightarrow> k \<in> set gap \<union> set invented \<and>
            \<not> (\<exists>row \<in> set rows. \<exists>kvs. row_get row (generated_cols_originalInput cfg) = JsonText kvs
                \<and> k \<in> fst ` set kvs))
       \<and> set gap \<inter> set invented = {}
       \<and> distinct (gap @ invented)"
proof -
  from assms obtain filled allInput
    where f: "keysOfColumn (generated_cols_gapAttributes cfg) rows = Inr filled"
      and a: "keysOfColumn (generated_cols_originalInput cfg) rows = Inr allInput"
      and inv: "invented = filter (\<lambda>gapKey. gapKey \<notin> set allInput) filled"
      and gap: "gap = filter (\<lambda>gapKey. gapKey \<notin> set invented) filled"
    by (auto simp: getGapAndInventedAttributes_def Let_def split: sum.splits)
  from f have d: "distinct filled"
    by (auto simp: keysOfColumn_def distinct_uniq split: sum.splits)
  note fs = keysOfColumn_set [OF f, of k]
  note as = keysOfColumn_set [OF a, of k]
  from inv have i: "k \<in> set invented \<longleftrightarrow> k \<in> set filled \<and> k \<notin> set allInput" by auto
  from gap i have g: "k \<in> set gap \<longleftrightarrow> k \<in> set filled \<and> k \<in> set allInput" by auto
  from gap have disj: "set gap \<inter> set invented = {}" by auto
  from d gap inv disj have "distinct (gap @ invented)" by simp
  with i g disj fs as show ?thesis by blast
qed

text \<open>
  The theorem at the two rows of the export example: \<^verbatim>\<open>color\<close> is a gap, being a
  column of both inputs, and \<^verbatim>\<open>material\<close> is invented, being a column of neither.
\<close>

theorem gap_invented_bipartition_witness:
  "getGapAndInventedAttributes example_config [example_rowA, example_rowB]
     = Inr ([js ''material''], [js ''color''])
   \<and> (\<exists>row \<in> set [example_rowA, example_rowB]. \<exists>kvs.
         row_get row (generated_cols_originalInput example_config) = JsonText kvs
         \<and> js ''color'' \<in> fst ` set kvs)
   \<and> \<not> (\<exists>row \<in> set [example_rowA, example_rowB]. \<exists>kvs.
         row_get row (generated_cols_originalInput example_config) = JsonText kvs
         \<and> js ''material'' \<in> fst ` set kvs)"
proof -
  note c = gap_invented_bipartition [OF example_partition, of "js ''color''"]
  note m = gap_invented_bipartition [OF example_partition, of "js ''material''"]
  have "js ''color'' \<in> set [js ''color'']" and "js ''material'' \<in> set [js ''material'']" by simp_all
  with c m example_partition show ?thesis by blast
qed

lemma foldl_arr_set_cell:
  "i < length cols \<Longrightarrow>
     row_get (foldl (\<lambda>acc (attribute, index). arr_set (start + index) (Val (f attribute)) acc)
                resRow (zip cols [0..<length cols])) (start + i)
     = Val (f (cols ! i))"
proof (induction cols rule: rev_induct)
  case Nil
  then show ?case by simp
next
  case (snoc c cols)
  show ?case
  proof (cases "i < length cols")
    case True
    with snoc.IH show ?thesis by (simp add: row_get_arr_set nth_append)
  next
    case False
    with snoc.prems have "i = length cols" by simp
    then show ?thesis by (simp add: row_get_arr_set)
  qed
qed

lemma exportRow_cell:
  assumes "exportRow cfg ts cols row = Inr resRow" and "i < length cols"
  shows "\<exists>gapObj originalInput.
           parseOrEmpty (row_get row (generated_cols_gapAttributes cfg)) = Inr gapObj
         \<and> parseOrEmpty (row_get row (generated_cols_originalInput cfg)) = Inr originalInput
         \<and> row_get resRow (output_cols_gapCols_start cfg + i)
             = Val (if cols ! i \<in> set (obj_keys gapObj) then obj_get gapObj (cols ! i)
                    else obj_get originalInput (cols ! i))"
proof -
  from assms(1) obtain gapObj originalInput
    where g: "parseOrEmpty (row_get row (generated_cols_gapAttributes cfg)) = Inr gapObj"
      and o: "parseOrEmpty (row_get row (generated_cols_originalInput cfg)) = Inr originalInput"
    by (auto simp: exportRow_def Let_def split: sum.splits)
  let ?f = "\<lambda>attribute. if attribute \<in> set (obj_keys gapObj) then obj_get gapObj attribute
                          else obj_get originalInput attribute"
  from assms(1) g o obtain base where
    "resRow = foldl (\<lambda>acc (attribute, index).
                       arr_set (output_cols_gapCols_start cfg + index) (Val (?f attribute)) acc)
                base (zip cols [0..<length cols])"
    by (auto simp: exportRow_def Let_def)
  with assms(2) foldl_arr_set_cell [of i cols "output_cols_gapCols_start cfg" ?f base]
  have "row_get resRow (output_cols_gapCols_start cfg + i) = Val (?f (cols ! i))" by simp
  with g o show ?thesis by blast
qed

text \<open>
  The cells that \<^verbatim>\<open>exportApproved\<close> writes. When it completes, the last call writes
  one row per approved row, and in the row written for an approved row the cell of a gap
  or invented column holds that row's own gap-map value if the column's key is a key of
  that row's gap map, and otherwise what the read \<^verbatim>\<open>originalInput[attribute]\<close> yields.
\<close>

lemma exported_cell_value:
  assumes "exportApproved cfg clock generatedRows = (effs, None)"
    and "getGapAndInventedAttributes cfg (approvedRows cfg generatedRows) = Inr (invented, gap)"
    and "r < length (approvedRows cfg generatedRows)"
    and "i < length (gap @ invented)"
  shows "\<exists>rowsToWrite gapObj originalInput.
           last effs = SetValuesInDefinedRange OutputSheet (output_startRow cfg + 1) 1 rowsToWrite
         \<and> length rowsToWrite = length (approvedRows cfg generatedRows)
         \<and> parseOrEmpty (row_get (approvedRows cfg generatedRows ! r)
                            (generated_cols_gapAttributes cfg)) = Inr gapObj
         \<and> parseOrEmpty (row_get (approvedRows cfg generatedRows ! r)
                            (generated_cols_originalInput cfg)) = Inr originalInput
         \<and> row_get (rowsToWrite ! r) (output_cols_gapCols_start cfg + i)
             = Val (if (gap @ invented) ! i \<in> set (obj_keys gapObj)
                    then obj_get gapObj ((gap @ invented) ! i)
                    else obj_get originalInput ((gap @ invented) ! i))"
proof -
  let ?rows = "approvedRows cfg generatedRows"
  let ?f = "\<lambda>(row, k). exportRow cfg (clock k) (gap @ invented) row"
  from assms(3) have ne: "length ?rows \<noteq> 0" by auto
  from assms(1,2) ne obtain rowsToWrite
    where c: "collect (map ?f (zip ?rows [0..<length ?rows])) = Inr rowsToWrite"
      and effs: "effs = [Log (Msg (js ''Exporting approved rows...''))] @ clearApprovedData cfg
                  @ writeApprovedData cfg (outputHeader cfg gap invented) rowsToWrite"
    by (auto simp: exportApproved_def Let_def split: sum.splits)
  from effs have l: "last effs
      = SetValuesInDefinedRange OutputSheet (output_startRow cfg + 1) 1 rowsToWrite"
    by (simp add: writeApprovedData_def)
  from c have m: "map ?f (zip ?rows [0..<length ?rows]) = map Inr rowsToWrite"
    by (rule collect_Inr)
  then have "length (map ?f (zip ?rows [0..<length ?rows])) = length (map Inr rowsToWrite)"
    by simp
  then have len: "length rowsToWrite = length ?rows" by simp
  from m have "map ?f (zip ?rows [0..<length ?rows]) ! r = map Inr rowsToWrite ! r" by simp
  with assms(3) len have "exportRow cfg (clock r) (gap @ invented) (?rows ! r) = Inr (rowsToWrite ! r)"
    by simp
  from exportRow_cell [OF this assms(4)] l len show ?thesis by blast
qed

lemma example_ctor_export:
  "exportApproved example_config example_clock [example_rowCtor, example_rowFailedApproved]
   = ([Log (Msg (js ''Exporting approved rows...'')),
       Log (Msg (js ''Clearing approved data...'')),
       ClearDefinedRange OutputSheet 1 2, ClearDefinedRange OutputSheet 2 1,
       Log (Msg (js ''Writing approved data...'')),
       SetValuesInDefinedRange OutputSheet 1 2
        [[Val (Str (js ''Item ID'')), Val (Str (js ''Title'')), Val (Str (js ''Description'')),
          Val (Str (js ''constructor''))]],
       SetValuesInDefinedRange OutputSheet 2 1
        [[Val (Str (js ''2023-06-01T00:00:00.000Z'')), Val (Str (js ''3'')),
          Val (Str (js ''Acme Brick'')), Val (Str (js ''A brick.'')), Val (Str (js ''Acme''))],
         [Val (Str (js ''2023-06-01T00:00:00.000Z'')), Val Undefined, Val Undefined,
          Val Undefined, Val (Inherited (js ''constructor''))]]],
      None)"
  by code_simp

lemma example_failed_row_snapshot:
  "parseOrEmpty (row_get example_rowFailedApproved (generated_cols_originalInput example_config))
     = Inr []"
  by code_simp

text \<open>
  Claim C7 fails on the code. A cell of a row whose gap keys lack the column's key is the
  read \<^verbatim>\<open>originalInput[attribute]\<close>, which follows the prototype chain, while the
  other branch asks first whether the key is the gap map's own. Row 1 below filled the
  empty column \<^verbatim>\<open>constructor\<close> of its input; row 2 is an approved failed row, whose
  original-input cell is empty. The snapshot of row 2 has no value for the key, yet the
  cell written for it holds the function that every object inherits under that name.
\<close>

theorem export_fallback_reads_inherited_member:
  "parseOrEmpty (row_get example_rowFailedApproved (generated_cols_originalInput example_config))
     = Inr []
   \<and> last (fst (exportApproved example_config example_clock
                    [example_rowCtor, example_rowFailedApproved]))
     = SetValuesInDefinedRange OutputSheet 2 1
        [[Val (Str (js ''2023-06-01T00:00:00.000Z'')), Val (Str (js ''3'')),
          Val (Str (js ''Acme Brick'')), Val (Str (js ''A brick.'')), Val (Str (js ''Acme''))],
         [Val (Str (js ''2023-06-01T00:00:00.000Z'')), Val Undefined, Val Undefined,
          Val Undefined, Val (Inherited (js ''constructor''))]]"
  by (simp add: example_ctor_export example_failed_row_snapshot)

text \<open>
  Claim C8. When no generated row has the approval cell \<^verbatim>\<open>true\<close>,
  \<^verbatim>\<open>exportApproved\<close> makes one call, the log message at its start, and returns: it
  neither clears nor writes a sheet.
\<close>

theorem export_without_approved_rows:
  assumes "\<forall>row \<in> set generatedRows. row_get row (generated_cols_approval cfg) \<noteq> Bool True"
  shows "exportApproved cfg clock generatedRows = ([Log (Msg (js ''Exporting approved rows...''))], None)
       \<and> filter touchesSheet (fst (exportApproved cfg clock generatedRows)) = []"
proof -
  from assms have "approvedRows cfg generatedRows = []"
    by (simp add: approvedRows_def filter_empty_conv)
  then show ?thesis by (simp add: exportApproved_def)
qed

text \<open>The theorem at a sheet whose one row is not approved.\<close>

theorem export_without_approved_rows_witness:
  "exportApproved example_config example_clock [[Bool False, Val (Str (js ''Success''))]]
     = ([Log (Msg (js ''Exporting approved rows...''))], None)"
proof -
  have "\<forall>row \<in> set [[Bool False, Val (Str (js ''Success''))]].
          row_get row (generated_cols_approval example_config) \<noteq> Bool True"
    by (simp add: row_get_def example_config_def)
  from export_without_approved_rows [OF this] show ?thesis by blast
qed

section \<open>Properties of the row driver\<close>

text \<open>
  The two ways in which a call that reaches \<^verbatim>\<open>optimizeRow\<close> ends. An error is caught
  and logged and a failed row is appended after the last row of the generated sheet,
  whose rows stay as they are; a generated row is written at the position of its input
  row.
\<close>

lemma generateNextRow_failure:
  assumes "getNextRowIndexToBeGenerated cfg generatedSheet = Inr rowIndex"
    and "0 \<le> rowIndex"
    and "rowIndex < int (length inputSheet) - int (input_startRow cfg)"
    and "optimizeRow st predictTitle predictDescription inputHeaders
           (inputSheet ! nat (int (input_startRow cfg) + rowIndex)) = Inl e"
  shows "generateNextRow cfg st predictTitle predictDescription inputHeaders inputSheet generatedSheet
           = ([Log (GeneratingForRow rowIndex), Log (ErrorMsg e),
               AppendRow GeneratedSheet (failedRow cfg)], Inr rowIndex)
       \<and> runOnGenerated
             (fst (generateNextRow cfg st predictTitle predictDescription inputHeaders
                     inputSheet generatedSheet)) generatedSheet
           = generatedSheet @ [failedRow cfg]"
  using assms by (simp add: generateNextRow_def runOnGenerated_def appendRow_def)

lemma generateNextRow_success:
  assumes "getNextRowIndexToBeGenerated cfg generatedSheet = Inr rowIndex"
    and "0 \<le> rowIndex"
    and "rowIndex < int (length inputSheet) - int (input_startRow cfg)"
    and "optimizeRow st predictTitle predictDescription inputHeaders
           (inputSheet ! nat (int (input_startRow cfg) + rowIndex)) = Inr optimizedRow"
  shows "generateNextRow cfg st predictTitle predictDescription inputHeaders inputSheet generatedSheet
           = ([Log (GeneratingForRow rowIndex),
               SetValuesInDefinedRange GeneratedSheet
                 (nat (int (generated_startRow cfg) + 1 + rowIndex)) 1 [optimizedRow],
               Log (Msg (Status_SUCCESS cfg))], Inr rowIndex)"
  using assms by (simp add: generateNextRow_def)

lemma example_failure_run:
  "generateNextRow example_config example_settings failing_predict example_predictDescription
     example_headers example_inputSheet [example_generatedHeader, failedRow example_config]
   = ([Log (GeneratingForRow 0), Log (ErrorMsg ModelFailure),
       AppendRow GeneratedSheet (failedRow example_config)], Inr 0)"
  by code_simp

lemma example_truncated_run:
  "generateNextRow example_config example_settings truncated_predict example_predictDescription
     example_headers example_inputSheet [example_generatedHeader, failedRow example_config]
   = ([Log (GeneratingForRow 0), Log (ErrorMsg TypeError),
       AppendRow GeneratedSheet (failedRow example_config)], Inr 0)"
  by code_simp

text \<open>
  Claim C9 fails on the code. The error is caught and logged, but the failed row is
  appended after the last row of the generated sheet, while a successful row is written
  at the position of its input row. The generated sheet below holds the header and the
  failed row of an earlier attempt at the first input row. The next call takes that row
  again (index 0); when the model call fails again, or when the response lacks a line,
  the second failed row is appended at the position of the second input row.
\<close>

theorem repeated_failure_appends_second_failed_row:
  "generateNextRow example_config example_settings failing_predict example_predictDescription
     example_headers example_inputSheet [example_generatedHeader, failedRow example_config]
   = ([Log (GeneratingForRow 0), Log (ErrorMsg ModelFailure),
       AppendRow GeneratedSheet (failedRow example_config)], Inr 0)
   \<and> generateNextRow example_config example_settings truncated_predict example_predictDescription
     example_headers example_inputSheet [example_generatedHeader, failedRow example_config]
   = ([Log (GeneratingForRow 0), Log (ErrorMsg TypeError),
       AppendRow GeneratedSheet (failedRow example_config)], Inr 0)
   \<and> runOnGenerated [Log (GeneratingForRow 0), Log (ErrorMsg ModelFailure),
                      AppendRow GeneratedSheet (failedRow example_config)]
        [example_generatedHeader, failedRow example_config]
      = [example_generatedHeader, failedRow example_config, failedRow example_config]"
  by (simp add: example_failure_run example_truncated_run runOnGenerated_def appendRow_def)

end
